theory Spec2Isabelle
  imports Complex_Main
begin

section \<open>Scalars and errors\<close>

text \<open>
  \<^verbatim>\<open>MultibodyPlant<T>\<close> is a template over its scalar \<^verbatim>\<open>T\<close>. The scalar is read here as
  a real number: the arithmetic of the source is kept operation by operation, rounding
  is not part of the model.

  Every way the source leaves a method other than by returning is a value of \<open>error\<close>:
  \<^item> \<open>LogicError msg\<close> is \<^verbatim>\<open>throw std::logic_error(msg)\<close>;
  \<^item> \<open>ThrowUnless c\<close> is a failed \<^verbatim>\<open>DRAKE_THROW_UNLESS(c)\<close>;
  \<^item> \<open>AssertFailed c\<close> is a failed \<^verbatim>\<open>DRAKE_ASSERT(c)\<close> or \<^verbatim>\<open>DRAKE_DEMAND(c)\<close>
    (assertions are modelled armed, as in a debug build);
  \<^item> \<open>OutOfRange\<close> is the \<^verbatim>\<open>std::out_of_range\<close> of \<^verbatim>\<open>.at()\<close> on a map or a
    vector.
\<close>

datatype error =
    LogicError string
  | ThrowUnless string
  | AssertFailed string
  | OutOfRange

section \<open>Coulomb friction and the Stribeck model\<close>

text \<open>
  \<^verbatim>\<open>CoulombFriction<double>\<close> is read through its two accessors
  \<^verbatim>\<open>static_friction()\<close> and \<^verbatim>\<open>dynamic_friction()\<close>.
\<close>

record CoulombFriction =
  static_friction :: real
  dynamic_friction :: real

text \<open>
  \<^verbatim>\<open>StribeckModel\<close> holds the stiction tolerance and its inverse; the source multiplies
  by the stored inverse (\<^verbatim>\<open>speed_BcAc * inv_v_stiction_tolerance_\<close>).
\<close>

record StribeckModel =
  v_stiction_tolerance :: real
  inv_v_stiction_tolerance :: real

text \<open>
  Modelled from the spec: \<^verbatim>\<open>StribeckModel::set_stiction_tolerance\<close> is defined in the
  header, which is not among the sources. The specification takes \<open>s = speed / v*\<close>
  for the stiction tolerance \<open>v*\<close>, hence the stored inverse is \<open>1 / v*\<close>.
\<close>

definition StribeckModel_set_stiction_tolerance :: "real \<Rightarrow> StribeckModel" where
  "StribeckModel_set_stiction_tolerance v_stiction =
     \<lparr>v_stiction_tolerance = v_stiction, inv_v_stiction_tolerance = 1 / v_stiction\<rparr>"

text \<open>
  \<^verbatim>\<open>
  T StribeckModel::step5(const T& x) {
    DRAKE_ASSERT(0 <= x && x <= 1);
    const T x3 = x * x * x;
    return x3 * (10 + x * (6 * x - 15));
  }
  \<close>
\<close>

definition step5 :: "real \<Rightarrow> error + real" where
  "step5 x =
     (if 0 \<le> x \<and> x \<le> 1
      then (let x3 = x * x * x in Inr (x3 * (10 + x * (6 * x - 15))))
      else Inl (AssertFailed ''0 <= x && x <= 1''))"

text \<open>
  \<^verbatim>\<open>
  T StribeckModel::ComputeFrictionCoefficient(
      const T& speed_BcAc, const CoulombFriction<double>& friction) const {
    DRAKE_ASSERT(speed_BcAc >= 0);
    const double mu_d = friction.dynamic_friction();
    const double mu_s = friction.static_friction();
    const T v = speed_BcAc * inv_v_stiction_tolerance_;
    if (v >= 3) {
      return mu_d;
    } else if (v >= 1) {
      return mu_s - (mu_s - mu_d) * step5((v - 1) / 2);
    } else {
      return mu_s * step5(v);
    }
  }
  \<close>
\<close>

definition ComputeFrictionCoefficient ::
  "StribeckModel \<Rightarrow> real \<Rightarrow> CoulombFriction \<Rightarrow> error + real" where
  "ComputeFrictionCoefficient stribeck speed_BcAc friction =
     (if \<not> speed_BcAc \<ge> 0 then Inl (AssertFailed ''speed_BcAc >= 0'')
      else
        let mu_d = dynamic_friction friction;
            mu_s = static_friction friction;
            v = speed_BcAc * inv_v_stiction_tolerance stribeck
        in if v \<ge> 3 then Inr mu_d
           else if v \<ge> 1 then
             (case step5 ((v - 1) / 2) of
                Inl e \<Rightarrow> Inl e
              | Inr s \<Rightarrow> Inr (mu_s - (mu_s - mu_d) * s))
           else
             (case step5 v of
                Inl e \<Rightarrow> Inl e
              | Inr s \<Rightarrow> Inr (mu_s * s)))"

text \<open>
  The quintic of the specification, in its own words:
  \<open>step5(x) = 10x\<^sup>3 - 15x\<^sup>4 + 6x\<^sup>5\<close>.
\<close>

definition step5_spec :: "real \<Rightarrow> real" where
  "step5_spec x = 10 * x ^ 3 - 15 * x ^ 4 + 6 * x ^ 5"

section \<open>Vectors, spatial quantities and point pairs\<close>

text \<open>
  \<^verbatim>\<open>Vector3<T>\<close> is a triple of scalars, with the Eigen operations the plant uses.
\<close>

type_synonym Vector3 = "real \<times> real \<times> real"

definition Zero3 :: Vector3 where
  "Zero3 = (0, 0, 0)"

fun vadd :: "Vector3 \<Rightarrow> Vector3 \<Rightarrow> Vector3" where
  "vadd (a1, a2, a3) (b1, b2, b3) = (a1 + b1, a2 + b2, a3 + b3)"

fun vsub :: "Vector3 \<Rightarrow> Vector3 \<Rightarrow> Vector3" where
  "vsub (a1, a2, a3) (b1, b2, b3) = (a1 - b1, a2 - b2, a3 - b3)"

fun vneg :: "Vector3 \<Rightarrow> Vector3" where
  "vneg (a1, a2, a3) = (- a1, - a2, - a3)"

fun smul :: "real \<Rightarrow> Vector3 \<Rightarrow> Vector3" where
  "smul c (a1, a2, a3) = (c * a1, c * a2, c * a3)"

fun sdiv :: "Vector3 \<Rightarrow> real \<Rightarrow> Vector3" where
  "sdiv (a1, a2, a3) c = (a1 / c, a2 / c, a3 / c)"

fun dot :: "Vector3 \<Rightarrow> Vector3 \<Rightarrow> real" where
  "dot (a1, a2, a3) (b1, b2, b3) = a1 * b1 + a2 * b2 + a3 * b3"

fun cross :: "Vector3 \<Rightarrow> Vector3 \<Rightarrow> Vector3" where
  "cross (a1, a2, a3) (b1, b2, b3) =
     (a2 * b3 - a3 * b2, a3 * b1 - a1 * b3, a1 * b2 - a2 * b1)"

definition squaredNorm :: "Vector3 \<Rightarrow> real" where
  "squaredNorm a = dot a a"

definition norm3 :: "Vector3 \<Rightarrow> real" where
  "norm3 a = sqrt (squaredNorm a)"

type_synonym BodyIndex = nat
type_synonym BodyNodeIndex = nat
type_synonym GeometryId = nat
type_synonym FrameId = nat
type_synonym SourceId = nat

text \<open>\<^verbatim>\<open>geometry::PenetrationAsPointPair<T>\<close>, with the fields the plant reads.\<close>

record PenetrationAsPointPair =
  id_A :: GeometryId
  id_B :: GeometryId
  p_WCa :: Vector3
  p_WCb :: Vector3
  nhat_BA_W :: Vector3
  depth :: real

section \<open>The plant and its collaborators\<close>

text \<open>
  A body of the tree, with what the plant asks of it: \<^verbatim>\<open>index()\<close>,
  \<^verbatim>\<open>node_index()\<close>, \<^verbatim>\<open>name()\<close> and \<^verbatim>\<open>get_default_mass()\<close>.
\<close>

record Body =
  body_index :: BodyIndex
  node_index :: BodyNodeIndex
  body_name :: string
  get_default_mass :: real

text \<open>
  The data of \<^verbatim>\<open>MultibodyTree<T>\<close> that the plant reads: whether the topology is valid,
  the bodies by index, the numbers of positions, velocities and joints, for each actuator
  the number of degrees of freedom of its joint, the number of actuated degrees of
  freedom, and for each model instance its numbers of actuated degrees of freedom, of
  positions and of velocities. Its kinematics and dynamics routines
  are outside the sources and enter the methods below as a record of functions.
\<close>

record MultibodyTree =
  topology_is_valid :: bool
  tree_bodies :: "Body list"
  tree_num_positions :: nat
  tree_num_velocities :: nat
  tree_num_joints :: nat
  tree_actuator_joint_num_dofs :: "nat list"
  tree_num_actuated_dofs :: nat
  tree_instance_num_actuated_dofs :: "nat list"
  tree_instance_num_positions :: "nat list"
  tree_instance_num_velocities :: "nat list"

record ContactByPenaltyMethodParameters =
  stiffness :: real
  damping :: real
  time_scale :: real






text \<open>
  The members of \<^verbatim>\<open>MultibodyPlant<T>\<close> that the methods below read or write. The
  pointer \<^verbatim>\<open>scene_graph_\<close> is the address of the engine, \<open>None\<close> for
  \<^verbatim>\<open>nullptr\<close>; a port is its index; an index that is not valid
  (\<^verbatim>\<open>actuated_instance_\<close>, \<^verbatim>\<open>geometry_query_port_\<close>,
  \<^verbatim>\<open>geometry_pose_port_\<close>) is \<open>None\<close>.
\<close>

record MultibodyPlant =
  time_step :: real
  model :: MultibodyTree
  source_id :: "SourceId option"
  scene_graph :: "nat option"
  body_index_to_frame_id :: "BodyIndex \<rightharpoonup> FrameId"
  geometry_id_to_body_index :: "GeometryId \<rightharpoonup> BodyIndex"
  geometry_id_to_visual_index :: "GeometryId \<rightharpoonup> nat"
  geometry_id_to_collision_index :: "GeometryId \<rightharpoonup> nat"
  visual_geometries :: "GeometryId list list"
  collision_geometries :: "GeometryId list list"
  default_coulomb_friction :: "CoulombFriction list"
  gravity_field :: "Vector3 option"
  penalty_method_contact_parameters :: ContactByPenaltyMethodParameters
  stribeck_model :: StribeckModel
  instance_actuation_ports :: "nat list"
  actuated_instance :: "nat option"
  continuous_state_output_port :: nat
  instance_continuous_state_output_ports :: "nat list"
  instance_generalized_contact_forces_output_ports :: "nat list"
  contact_results_port :: nat
  geometry_query_port :: "nat option"
  geometry_pose_port :: "nat option"

text \<open>
  The context of a step: the discrete state groups, the continuous state vector, the
  value of each vector input port, and the point pairs that the query object of the
  geometry query port reports.
\<close>

record Context =
  discrete_state :: "real list list"
  continuous_state_vector :: "real list"
  vector_input :: "nat \<Rightarrow> real list"
  query_point_pairs :: "PenetrationAsPointPair list"

text \<open>
  Modelled from the spec: the one-line accessors of the header. Body 0 is the world;
  the plant is finalized when the topology of its tree is valid; it is discrete when
  its time step is positive; the geometry source is registered once \<^verbatim>\<open>source_id_\<close>
  holds a value; the number of collision geometries is the size of
  \<^verbatim>\<open>geometry_id_to_collision_index_\<close>.
\<close>

definition world_index :: BodyIndex where
  "world_index = 0"

definition is_finalized :: "MultibodyPlant \<Rightarrow> bool" where
  "is_finalized plant = topology_is_valid (model plant)"

definition is_discrete :: "MultibodyPlant \<Rightarrow> bool" where
  "is_discrete plant = (time_step plant > 0)"

definition geometry_source_is_registered :: "MultibodyPlant \<Rightarrow> bool" where
  "geometry_source_is_registered plant = (source_id plant \<noteq> None)"

definition num_bodies :: "MultibodyPlant \<Rightarrow> nat" where
  "num_bodies plant = length (tree_bodies (model plant))"

definition get_body :: "MultibodyPlant \<Rightarrow> BodyIndex \<Rightarrow> Body" where
  "get_body plant i = tree_bodies (model plant) ! i"

definition num_positions :: "MultibodyPlant \<Rightarrow> nat" where
  "num_positions plant = tree_num_positions (model plant)"

definition num_velocities :: "MultibodyPlant \<Rightarrow> nat" where
  "num_velocities plant = tree_num_velocities (model plant)"

definition num_collision_geometries :: "MultibodyPlant \<Rightarrow> nat" where
  "num_collision_geometries plant = card (dom (geometry_id_to_collision_index plant))"


section \<open>Lifecycle guards\<close>


definition pre_finalize_message :: "string \<Rightarrow> string" where
  "pre_finalize_message source_method =
     ''Pre-finalize calls to '' @ [CHR 0x27] @ source_method @ ''()'' @ [CHR 0x27] @ '' are ''
     @ ''not allowed; you must call Finalize() first.''"


definition ThrowIfNotFinalized :: "MultibodyPlant \<Rightarrow> string \<Rightarrow> error option" where
  "ThrowIfNotFinalized plant source_method =
     (if \<not> is_finalized plant then Some (LogicError (pre_finalize_message source_method))
      else None)"

section \<open>Geometry registration\<close>







section \<open>Penetration allowance\<close>

text \<open>
  \<^verbatim>\<open>
  void set_penetration_allowance(double penetration_allowance) {
    DRAKE_MBP_THROW_IF_NOT_FINALIZED();
    const double g = gravity_field_.has_value() ?
                     gravity_field_.value()->gravity_vector().norm() : 9.81;
    double mass = 0.0;
    for (BodyIndex body_index(0); body_index < num_bodies(); ++body_index) {
      const Body<T>& body = model().get_body(body_index);
      mass = std::max(mass, body.get_default_mass());
    }
    const double stiffness = mass * g / penetration_allowance;
    const double omega = sqrt(stiffness / mass);
    const double time_scale = 1.0 / omega;
    const double damping_ratio = 1.0;
    const double damping = damping_ratio * time_scale / penetration_allowance;
    penalty_method_contact_parameters_.stiffness = stiffness;
    penalty_method_contact_parameters_.damping = damping;
    penalty_method_contact_parameters_.time_scale = time_scale;
  }
  \<close>
  The loop over the body indices is a fold over \<open>[0..<num_bodies]\<close>. Where the source
  divides by zero the double is an infinity or a NaN, which a real number cannot be:
  with a maximum mass of zero the source computes \<^verbatim>\<open>sqrt(0 / 0)\<close>, and with a gravity
  vector of norm zero it computes \<^verbatim>\<open>1.0 / 0\<close>. The model has the value HOL gives the
  division there, which is not the value of the source; the theorem on the parameters
  is stated for a positive maximum mass, a positive norm of the gravity vector and a
  positive allowance, where every divisor is positive.
\<close>

definition max_default_mass :: "MultibodyPlant \<Rightarrow> real" where
  "max_default_mass plant =
     fold (\<lambda>i mass. max mass (get_default_mass (get_body plant i))) [0..<num_bodies plant] 0"

definition set_penetration_allowance ::
  "MultibodyPlant \<Rightarrow> real \<Rightarrow> (error + unit) \<times> MultibodyPlant" where
  "set_penetration_allowance plant penetration_allowance =
     (case ThrowIfNotFinalized plant ''set_penetration_allowance'' of
        Some e \<Rightarrow> (Inl e, plant)
      | None \<Rightarrow>
          let g = (case gravity_field plant of
                     Some gravity_vector \<Rightarrow> norm3 gravity_vector
                   | None \<Rightarrow> 9.81);
              mass = max_default_mass plant;
              stiffness' = mass * g / penetration_allowance;
              omega = sqrt (stiffness' / mass);
              time_scale' = 1.0 / omega;
              damping_ratio = 1.0;
              damping' = damping_ratio * time_scale' / penetration_allowance;
              p1 = (penalty_method_contact_parameters plant)\<lparr>stiffness := stiffness'\<rparr>;
              p2 = p1\<lparr>damping := damping'\<rparr>;
              p3 = p2\<lparr>time_scale := time_scale'\<rparr>
          in (Inr (), plant\<lparr>penalty_method_contact_parameters := p3\<rparr>))"

section \<open>State and port accessors\<close>





definition get_contact_results_output_port :: "MultibodyPlant \<Rightarrow> error + nat" where
  "get_contact_results_output_port plant =
     (case ThrowIfNotFinalized plant ''get_contact_results_output_port'' of
        Some e \<Rightarrow> Inl e
      | None \<Rightarrow>
          if \<not> is_discrete plant then Inl (ThrowUnless ''is_discrete()'')
          else Inr (contact_results_port plant))"

section \<open>Spatial forces and the collaborators of the dynamics\<close>

text \<open>
  \<^verbatim>\<open>SpatialForce<T>\<close> and \<^verbatim>\<open>SpatialVelocity<T>\<close> are pairs of a rotational and a
  translational 3-vector.
\<close>

record SpatialVector =
  rotational :: Vector3
  translational :: Vector3

text \<open>
  Modelled from the spec: \<^verbatim>\<open>SpatialForce::Shift\<close>, unary minus and \<^verbatim>\<open>+=\<close> are defined
  in the spatial algebra headers, which are not among the sources. A spatial force is
  \<open>(\<tau>; f)\<close> at a point; the contact law shifts the force at \<open>C\<close> to the body origin
  \<open>Ao\<close> with \<^verbatim>\<open>Shift(p_CoAo_W)\<close>, the offset from \<open>C\<close> to \<open>Ao\<close>: the force is kept and
  the moment about the new point is \<open>\<tau> - p \<times> f\<close>.
\<close>

definition SpatialForce_Shift :: "SpatialVector \<Rightarrow> Vector3 \<Rightarrow> SpatialVector" where
  "SpatialForce_Shift F p =
     \<lparr>rotational = vsub (rotational F) (cross p (translational F)),
      translational = translational F\<rparr>"

definition SpatialForce_minus :: "SpatialVector \<Rightarrow> SpatialVector" where
  "SpatialForce_minus F =
     \<lparr>rotational = vneg (rotational F), translational = vneg (translational F)\<rparr>"

definition SpatialForce_plus :: "SpatialVector \<Rightarrow> SpatialVector \<Rightarrow> SpatialVector" where
  "SpatialForce_plus F G =
     \<lparr>rotational = vadd (rotational F) (rotational G),
      translational = vadd (translational F) (translational G)\<rparr>"

record MultibodyForces =
  body_forces :: "SpatialVector list"
  generalized_forces :: "real list"

type_synonym Matrix3 = "Vector3 \<times> Vector3 \<times> Vector3"

type_synonym PositionKinematicsCache = "BodyNodeIndex \<Rightarrow> Vector3"
type_synonym VelocityKinematicsCache = "BodyNodeIndex \<Rightarrow> SpatialVector"

text \<open>
  The solver of the discrete update: what \<^verbatim>\<open>SetTwoWayCoupledProblemData\<close> is handed, the
  status that \<^verbatim>\<open>SolveWithGuess\<close> returns, and what the getters of the solver return
  afterwards.
\<close>

record ProblemData =
  pd_M :: "real list list"
  pd_Jn :: "real list list"
  pd_Jt :: "real list list"
  pd_p_star :: "real list"
  pd_phi0 :: "real list"
  pd_stiffness :: "real list"
  pd_damping :: "real list"
  pd_mu :: "real list"

datatype ComputationInfo = Success | MaxIterationsReached | LinearSolverFailure

record SolverResults =
  get_generalized_velocities :: "real list"
  get_normal_forces :: "real list"
  get_friction_forces :: "real list"
  get_tangential_velocities :: "real list"
  get_normal_velocities :: "real list"

text \<open>
  The routines the plant calls that are outside the sources: the shift of a spatial
  velocity, the orthonormal basis of the contact frame (a matrix is the triple of its
  columns), the routines of the tree (the position kinematics cache is read through the
  translations of \<^verbatim>\<open>X_WB\<close>, the Jacobian of a point is the list of its \<open>nv\<close> columns,
  a joint and an actuator are named by their indices), the solver, and the two routines
  of the tree that pick the entries of a model instance out of an array of positions or
  of velocities.
\<close>

record Collaborators =
  SpatialVelocity_Shift :: "SpatialVector \<Rightarrow> Vector3 \<Rightarrow> SpatialVector"
  ComputeBasisFromAxis :: "nat \<Rightarrow> Vector3 \<Rightarrow> Matrix3"
  CalcMassMatrixViaInverseDynamics :: "Context \<Rightarrow> real list list"
  CalcPositionKinematicsCache :: "Context \<Rightarrow> PositionKinematicsCache"
  CalcVelocityKinematicsCache ::
    "Context \<Rightarrow> PositionKinematicsCache \<Rightarrow> VelocityKinematicsCache"
  CalcForceElementsContribution ::
    "Context \<Rightarrow> PositionKinematicsCache \<Rightarrow> VelocityKinematicsCache \<Rightarrow> MultibodyForces"
  CalcInverseDynamics ::
    "Context \<Rightarrow> PositionKinematicsCache \<Rightarrow> VelocityKinematicsCache \<Rightarrow> real list \<Rightarrow>
       SpatialVector list \<Rightarrow> real list \<Rightarrow> SpatialVector list \<times> SpatialVector list \<times> real list"
  CalcPointsGeometricJacobianExpressedInWorld ::
    "Context \<Rightarrow> BodyIndex \<Rightarrow> Vector3 \<Rightarrow> Vector3 list"
  MapVelocityToQDot :: "Context \<Rightarrow> real list \<Rightarrow> real list"
  Joint_AddInDamping :: "nat \<Rightarrow> Context \<Rightarrow> MultibodyForces \<Rightarrow> MultibodyForces"
  JointActuator_AddInOneForce ::
    "nat \<Rightarrow> Context \<Rightarrow> nat \<Rightarrow> real \<Rightarrow> MultibodyForces \<Rightarrow> MultibodyForces"
  SolveWithGuess :: "ProblemData \<Rightarrow> real \<Rightarrow> real list \<Rightarrow> ComputationInfo \<times> SolverResults"
  get_positions_from_array :: "nat \<Rightarrow> real list \<Rightarrow> real list"
  get_velocities_from_array :: "nat \<Rightarrow> real list \<Rightarrow> real list"

section \<open>Combined friction\<close>

text \<open>
  Modelled from the spec: \<^verbatim>\<open>CalcContactFrictionFromSurfaceProperties\<close> is defined with
  \<^verbatim>\<open>CoulombFriction\<close>, outside the sources. The specification combines each of the
  static and the dynamic coefficient by \<open>2 \<mu>\<^sub>A \<mu>\<^sub>B / (\<mu>\<^sub>A + \<mu>\<^sub>B)\<close>, and by zero when the
  sum is zero.
\<close>

definition combine_coefficient :: "real \<Rightarrow> real \<Rightarrow> real" where
  "combine_coefficient mu_A mu_B =
     (if mu_A + mu_B = 0 then 0 else 2 * mu_A * mu_B / (mu_A + mu_B))"

definition CalcContactFrictionFromSurfaceProperties ::
  "CoulombFriction \<Rightarrow> CoulombFriction \<Rightarrow> CoulombFriction" where
  "CalcContactFrictionFromSurfaceProperties a b =
     \<lparr>static_friction = combine_coefficient (static_friction a) (static_friction b),
      dynamic_friction = combine_coefficient (dynamic_friction a) (dynamic_friction b)\<rparr>"

text \<open>
  \<^verbatim>\<open>
  std::vector<CoulombFriction<double>> CalcCombinedFrictionCoefficients(point_pairs) const {
    std::vector<CoulombFriction<double>> combined_frictions;
    for (const auto& pair : point_pairs) {
      const int collision_indexA = geometry_id_to_collision_index_.at(pair.id_A);
      const int collision_indexB = geometry_id_to_collision_index_.at(pair.id_B);
      const CoulombFriction<double>& geometryA_friction =
          default_coulomb_friction_[collision_indexA];
      const CoulombFriction<double>& geometryB_friction =
          default_coulomb_friction_[collision_indexB];
      combined_frictions.push_back(CalcContactFrictionFromSurfaceProperties(
          geometryA_friction, geometryB_friction));
    }
    return combined_frictions;
  }
  \<close>
  \<^verbatim>\<open>.at()\<close> throws on a geometry that is not registered for collision. The index into
  \<^verbatim>\<open>default_coulomb_friction_\<close> is not checked by the source; an index outside the
  vector is undefined behaviour there and a failure in the model.
\<close>

fun CalcCombinedFrictionCoefficients ::
  "MultibodyPlant \<Rightarrow> PenetrationAsPointPair list \<Rightarrow> error + CoulombFriction list" where
  "CalcCombinedFrictionCoefficients plant [] = Inr []"
| "CalcCombinedFrictionCoefficients plant (pair # pairs) =
     (case geometry_id_to_collision_index plant (id_A pair) of
        None \<Rightarrow> Inl OutOfRange
      | Some collision_indexA \<Rightarrow>
     (case geometry_id_to_collision_index plant (id_B pair) of
        None \<Rightarrow> Inl OutOfRange
      | Some collision_indexB \<Rightarrow>
     if \<not> (collision_indexA < length (default_coulomb_friction plant) \<and>
            collision_indexB < length (default_coulomb_friction plant))
     then Inl OutOfRange
     else
       (case CalcCombinedFrictionCoefficients plant pairs of
          Inl e \<Rightarrow> Inl e
        | Inr combined_frictions \<Rightarrow>
            Inr (CalcContactFrictionFromSurfaceProperties
                   (default_coulomb_friction plant ! collision_indexA)
                   (default_coulomb_friction plant ! collision_indexB)
                 # combined_frictions))))"

section \<open>Contact forces by the penalty method\<close>

text \<open>
  The body of the loop of \<^verbatim>\<open>CalcAndAddContactForcesByPenaltyMethod\<close>, in the order of
  the source. First the kinematics of the pair:
  \<^verbatim>\<open>
    const Vector3<T> p_WC = 0.5 * (p_WCa + p_WCb);
    const Vector3<T>& p_WAo = pc.get_X_WB(bodyA_node_index).translation();
    const Vector3<T>& p_CoAo_W = p_WAo - p_WC;
    const Vector3<T>& p_WBo = pc.get_X_WB(bodyB_node_index).translation();
    const Vector3<T>& p_CoBo_W = p_WBo - p_WC;
    const Vector3<T> v_WAc = vc.get_V_WB(bodyA_node_index).Shift(-p_CoAo_W).translational();
    const Vector3<T> v_WBc = vc.get_V_WB(bodyB_node_index).Shift(-p_CoBo_W).translational();
    const Vector3<T> v_AcBc_W = v_WBc - v_WAc;
    // if xdot = vn > 0 ==> they are getting closer.
    const T vn = v_AcBc_W.dot(nhat_BA_W);
  \<close>
\<close>

definition approach_speed :: "Vector3 \<Rightarrow> Vector3 \<Rightarrow> Vector3 \<Rightarrow> real" where
  "approach_speed v_WAc v_WBc nhat = dot (vsub v_WBc v_WAc) nhat"

record ContactPairKinematics =
  p_CoAo_W :: Vector3
  p_CoBo_W :: Vector3
  v_AcBc_W :: Vector3
  vn :: real

definition contact_pair_kinematics ::
  "Collaborators \<Rightarrow> PositionKinematicsCache \<Rightarrow> VelocityKinematicsCache \<Rightarrow>
     BodyNodeIndex \<Rightarrow> BodyNodeIndex \<Rightarrow> PenetrationAsPointPair \<Rightarrow> ContactPairKinematics" where
  "contact_pair_kinematics ext pc vc bodyA_node_index bodyB_node_index pair =
     (let p_WC = smul 0.5 (vadd (p_WCa pair) (p_WCb pair));
          p_WAo = pc bodyA_node_index;
          p_CoAo = vsub p_WAo p_WC;
          p_WBo = pc bodyB_node_index;
          p_CoBo = vsub p_WBo p_WC;
          v_WAc = translational (SpatialVelocity_Shift ext (vc bodyA_node_index) (vneg p_CoAo));
          v_WBc = translational (SpatialVelocity_Shift ext (vc bodyB_node_index) (vneg p_CoBo))
      in \<lparr>p_CoAo_W = p_CoAo, p_CoBo_W = p_CoBo, v_AcBc_W = vsub v_WBc v_WAc,
          vn = approach_speed v_WAc v_WBc (nhat_BA_W pair)\<rparr>)"

text \<open>
  The magnitude of the normal force on \<open>A\<close>:
  \<^verbatim>\<open>
    const T k = penalty_method_contact_parameters_.stiffness;
    const T d = penalty_method_contact_parameters_.damping;
    const T fn_AC = k * x * (1.0 + d * vn);
  \<close>
\<close>

definition fn_AC :: "MultibodyPlant \<Rightarrow> real \<Rightarrow> real \<Rightarrow> real" where
  "fn_AC plant x vn' =
     (let k = stiffness (penalty_method_contact_parameters plant);
          d = damping (penalty_method_contact_parameters plant)
      in k * x * (1.0 + d * vn'))"

text \<open>
  The friction force on \<open>A\<close>, inside \<^verbatim>\<open>if (fn_AC > 0)\<close>:
  \<^verbatim>\<open>
    const Vector3<T> vt_AcBc_W = v_AcBc_W - vn * nhat_BA_W;
    const T vt_squared = vt_AcBc_W.squaredNorm();
    const T kNonZeroSqd = 1e-14 * 1e-14;
    Vector3<T> ft_AC_W = Vector3<T>::Zero();
    if (vt_squared > kNonZeroSqd) {
      const T vt = sqrt(vt_squared);
      const T mu_stribeck = stribeck_model_.ComputeFrictionCoefficient(
          vt, combined_friction_pairs[icontact]);
      const Vector3<T> that_W = vt_AcBc_W / vt;
      const T ft_AC = mu_stribeck * fn_AC;
      ft_AC_W = ft_AC * that_W;
    }
  \<close>
  The literal \<^verbatim>\<open>1e-14\<close> is \<open>1 / 10\<^sup>1\<^sup>4\<close>.
\<close>

definition vt_AcBc_W :: "ContactPairKinematics \<Rightarrow> Vector3 \<Rightarrow> Vector3" where
  "vt_AcBc_W kin nhat = vsub (v_AcBc_W kin) (smul (vn kin) nhat)"

definition ft_AC_W :: "MultibodyPlant \<Rightarrow> CoulombFriction \<Rightarrow> real \<Rightarrow> Vector3 \<Rightarrow> error + Vector3"
  where
  "ft_AC_W plant friction fn vt_W =
     (let vt_squared = squaredNorm vt_W;
          kNonZeroSqd = (1 / 10 ^ 14) * (1 / 10 ^ 14)
      in if vt_squared > kNonZeroSqd then
           (let vt = sqrt vt_squared
            in case ComputeFrictionCoefficient (stribeck_model plant) vt friction of
                 Inl e \<Rightarrow> Inl e
               | Inr mu_stribeck \<Rightarrow>
                   (let that_W = sdiv vt_W vt;
                        ft_AC = mu_stribeck * fn
                    in Inr (smul ft_AC that_W)))
         else Inr Zero3)"

text \<open>
  The spatial force on \<open>A\<close> at \<open>C\<close> and its accumulation:
  \<^verbatim>\<open>
    const Vector3<T> fn_AC_W = fn_AC * nhat_BA_W;
    const SpatialForce<T> F_AC_W(Vector3<T>::Zero(), fn_AC_W + ft_AC_W);
    if (F_BBo_W_array != nullptr) {
      if (bodyA_index != world_index()) {
        const SpatialForce<T> F_AAo_W = F_AC_W.Shift(p_CoAo_W);
        F_BBo_W_array->at(bodyA_node_index) += F_AAo_W;
      }
      if (bodyB_index != world_index()) {
        const SpatialForce<T> F_BBo_W = -F_AC_W.Shift(p_CoBo_W);
        F_BBo_W_array->at(bodyB_node_index) += F_BBo_W;
      }
    }
  \<close>
  The array pointer is \<open>None\<close> for \<^verbatim>\<open>nullptr\<close>.
\<close>

definition F_AC_W :: "real \<Rightarrow> Vector3 \<Rightarrow> Vector3 \<Rightarrow> SpatialVector" where
  "F_AC_W fn nhat ft = \<lparr>rotational = Zero3, translational = vadd (smul fn nhat) ft\<rparr>"

definition F_AAo_W :: "SpatialVector \<Rightarrow> ContactPairKinematics \<Rightarrow> SpatialVector" where
  "F_AAo_W F kin = SpatialForce_Shift F (p_CoAo_W kin)"

definition F_BBo_W :: "SpatialVector \<Rightarrow> ContactPairKinematics \<Rightarrow> SpatialVector" where
  "F_BBo_W F kin = SpatialForce_minus (SpatialForce_Shift F (p_CoBo_W kin))"

definition add_at :: "SpatialVector list \<Rightarrow> nat \<Rightarrow> SpatialVector \<Rightarrow> error + SpatialVector list"
  where
  "add_at F i G =
     (if i < length F then Inr (F[i := SpatialForce_plus (F ! i) G]) else Inl OutOfRange)"

definition accumulate_contact_force ::
  "SpatialVector list option \<Rightarrow> BodyIndex \<Rightarrow> BodyNodeIndex \<Rightarrow> BodyIndex \<Rightarrow> BodyNodeIndex \<Rightarrow>
     ContactPairKinematics \<Rightarrow> SpatialVector \<Rightarrow> error + SpatialVector list option" where
  "accumulate_contact_force F_BBo_W_array bodyA_index bodyA_node_index bodyB_index
       bodyB_node_index kin F =
     (case F_BBo_W_array of
        None \<Rightarrow> Inr None
      | Some F0 \<Rightarrow>
          (case (if bodyA_index \<noteq> world_index
                 then add_at F0 bodyA_node_index (F_AAo_W F kin) else Inr F0) of
             Inl e \<Rightarrow> Inl e
           | Inr F1 \<Rightarrow>
               (case (if bodyB_index \<noteq> world_index
                      then add_at F1 bodyB_node_index (F_BBo_W F kin) else Inr F1) of
                  Inl e \<Rightarrow> Inl e
                | Inr F2 \<Rightarrow> Inr (Some F2))))"

text \<open>
  One pass of the loop. \<^verbatim>\<open>geometry_id_to_body_index_.at\<close> throws on an unknown geometry;
  \<^verbatim>\<open>get_body\<close> of the tree asserts that the index is a body of the tree;
  \<^verbatim>\<open>DRAKE_ASSERT(x >= 0)\<close> guards the depth.
\<close>

definition contact_pair_forces ::
  "MultibodyPlant \<Rightarrow> Collaborators \<Rightarrow> PositionKinematicsCache \<Rightarrow> VelocityKinematicsCache \<Rightarrow>
     PenetrationAsPointPair \<Rightarrow> CoulombFriction \<Rightarrow> SpatialVector list option \<Rightarrow>
     error + SpatialVector list option" where
  "contact_pair_forces plant ext pc vc pair friction F_BBo_W_array =
     (case geometry_id_to_body_index plant (id_A pair) of
        None \<Rightarrow> Inl OutOfRange
      | Some bodyA_index \<Rightarrow>
     (case geometry_id_to_body_index plant (id_B pair) of
        None \<Rightarrow> Inl OutOfRange
      | Some bodyB_index \<Rightarrow>
     if \<not> (bodyA_index < num_bodies plant \<and> bodyB_index < num_bodies plant)
       then Inl (AssertFailed ''body_index < num_bodies()'')
     else
       let bodyA_node_index = node_index (get_body plant bodyA_index);
           bodyB_node_index = node_index (get_body plant bodyB_index);
           x = depth pair
       in if \<not> x \<ge> 0 then Inl (AssertFailed ''x >= 0'')
          else
            let kin = contact_pair_kinematics ext pc vc bodyA_node_index bodyB_node_index pair;
                fn = fn_AC plant x (vn kin)
            in if fn > 0 then
                 (case ft_AC_W plant friction fn (vt_AcBc_W kin (nhat_BA_W pair)) of
                    Inl e \<Rightarrow> Inl e
                  | Inr ft \<Rightarrow>
                      accumulate_contact_force F_BBo_W_array bodyA_index bodyA_node_index
                        bodyB_index bodyB_node_index kin (F_AC_W fn (nhat_BA_W pair) ft))
               else Inr F_BBo_W_array))"

text \<open>
  \<^verbatim>\<open>
  void CalcAndAddContactForcesByPenaltyMethod(context, pc, vc, point_pairs,
                                              F_BBo_W_array) const {
    if (num_collision_geometries() == 0) return;
    std::vector<CoulombFriction<double>> combined_friction_pairs =
        CalcCombinedFrictionCoefficients(point_pairs);
    for (size_t icontact = 0; icontact < point_pairs.size(); ++icontact) { ... }
  }
  \<close>
  The loop walks the point pairs and their combined frictions side by side.
\<close>

fun contact_forces_loop ::
  "MultibodyPlant \<Rightarrow> Collaborators \<Rightarrow> PositionKinematicsCache \<Rightarrow> VelocityKinematicsCache \<Rightarrow>
     (PenetrationAsPointPair \<times> CoulombFriction) list \<Rightarrow> SpatialVector list option \<Rightarrow>
     error + SpatialVector list option" where
  "contact_forces_loop plant ext pc vc [] F = Inr F"
| "contact_forces_loop plant ext pc vc ((pair, friction) # rest) F =
     (case contact_pair_forces plant ext pc vc pair friction F of
        Inl e \<Rightarrow> Inl e
      | Inr F1 \<Rightarrow> contact_forces_loop plant ext pc vc rest F1)"

definition CalcAndAddContactForcesByPenaltyMethod ::
  "MultibodyPlant \<Rightarrow> Collaborators \<Rightarrow> PositionKinematicsCache \<Rightarrow> VelocityKinematicsCache \<Rightarrow>
     PenetrationAsPointPair list \<Rightarrow> SpatialVector list option \<Rightarrow>
     error + SpatialVector list option" where
  "CalcAndAddContactForcesByPenaltyMethod plant ext pc vc point_pairs F_BBo_W_array =
     (if num_collision_geometries plant = 0 then Inr F_BBo_W_array
      else
        (case CalcCombinedFrictionCoefficients plant point_pairs of
           Inl e \<Rightarrow> Inl e
         | Inr combined_friction_pairs \<Rightarrow>
             contact_forces_loop plant ext pc vc (zip point_pairs combined_friction_pairs)
               F_BBo_W_array))"

text \<open>
  The slot of a body in the force array is its node index. The tree numbers its nodes
  so that no other body shares the node of the world; for the bodies that carry a
  geometry this reads as follows.
\<close>

definition world_slot_free :: "MultibodyPlant \<Rightarrow> bool" where
  "world_slot_free plant \<longleftrightarrow>
     (\<forall>g i. geometry_id_to_body_index plant g = Some i \<longrightarrow> i \<noteq> world_index \<longrightarrow>
        node_index (get_body plant i) \<noteq> node_index (get_body plant world_index))"

section \<open>Vectors and matrices of generalized quantities\<close>

text \<open>
  A \<^verbatim>\<open>VectorX<T>\<close> is a list of scalars and a \<^verbatim>\<open>MatrixX<T>\<close> the list of its rows.
  Eigen asserts that the operands of a sum or a product agree in size; the operations
  below pair the entries up and are meant for operands that agree. A \<open>3 \<times> nv\<close>
  Jacobian is the list of its columns.
\<close>

definition list_dot :: "real list \<Rightarrow> real list \<Rightarrow> real" where
  "list_dot a b = sum_list (map2 (*) a b)"

definition mat_vec :: "real list list \<Rightarrow> real list \<Rightarrow> real list" where
  "mat_vec M v = map (\<lambda>row. list_dot row v) M"


definition vec_sub :: "real list \<Rightarrow> real list \<Rightarrow> real list" where
  "vec_sub a b = map2 (-) a b"

definition vec_scale :: "real \<Rightarrow> real list \<Rightarrow> real list" where
  "vec_scale c a = map ((*) c) a"

definition jacobian_sub :: "Vector3 list \<Rightarrow> Vector3 list \<Rightarrow> Vector3 list" where
  "jacobian_sub J1 J2 = map2 vsub J1 J2"

definition transpose_times :: "Vector3 \<Rightarrow> Vector3 list \<Rightarrow> real list" where
  "transpose_times n J = map (dot n) J"

fun jacobian_times :: "Vector3 list \<Rightarrow> real list \<Rightarrow> Vector3" where
  "jacobian_times (c # J) (x # v) = vadd (smul x c) (jacobian_times J v)"
| "jacobian_times J v = Zero3"


section \<open>Contact Jacobians\<close>

text \<open>
  \<^verbatim>\<open>
  MatrixX<T> CalcNormalSeparationVelocitiesJacobian(context, point_pairs_set) const {
    const int num_contacts = point_pairs_set.size();
    MatrixX<T> N(num_contacts, num_velocities());
    for (int icontact = 0; icontact < num_contacts; ++icontact) {
      const auto& point_pair = point_pairs_set[icontact];
      BodyIndex bodyA_index = geometry_id_to_body_index_.at(point_pair.id_A);
      const Body<T>& bodyA = model().get_body(bodyA_index);
      BodyIndex bodyB_index = geometry_id_to_body_index_.at(point_pair.id_B);
      const Body<T>& bodyB = model().get_body(bodyB_index);
      ...
      MatrixX<T> Jv_WAc(3, this->num_velocities());
      model().CalcPointsGeometricJacobianExpressedInWorld(
          context, bodyA.body_frame(), p_WCa, &Jv_WAc);
      MatrixX<T> Jv_WBc(3, this->num_velocities());
      model().CalcPointsGeometricJacobianExpressedInWorld(
          context, bodyB.body_frame(), p_WCb, &Jv_WBc);
      // The velocity of Bc relative to Ac is
      //   v_AcBc_W = v_WBc - v_WAc.
      // From where the separation velocity is computed as
      //   vn = -v_AcBc_W.dot(nhat_BA_W) = -nhat_BA_W^T * v_AcBc_W
      N.row(icontact) = nhat_BA_W.transpose() * (Jv_WAc - Jv_WBc);
    }
    return N;
  }
  \<close>
  The body frame is named by the index of its body.
\<close>

fun CalcNormalSeparationVelocitiesJacobian ::
  "MultibodyPlant \<Rightarrow> Collaborators \<Rightarrow> Context \<Rightarrow> PenetrationAsPointPair list \<Rightarrow>
     error + real list list" where
  "CalcNormalSeparationVelocitiesJacobian plant ext context [] = Inr []"
| "CalcNormalSeparationVelocitiesJacobian plant ext context (point_pair # rest) =
     (case geometry_id_to_body_index plant (id_A point_pair) of
        None \<Rightarrow> Inl OutOfRange
      | Some bodyA_index \<Rightarrow>
     (case geometry_id_to_body_index plant (id_B point_pair) of
        None \<Rightarrow> Inl OutOfRange
      | Some bodyB_index \<Rightarrow>
     if \<not> (bodyA_index < num_bodies plant \<and> bodyB_index < num_bodies plant)
       then Inl (AssertFailed ''body_index < num_bodies()'')
     else
       let Jv_WAc = CalcPointsGeometricJacobianExpressedInWorld ext context bodyA_index
                      (p_WCa point_pair);
           Jv_WBc = CalcPointsGeometricJacobianExpressedInWorld ext context bodyB_index
                      (p_WCb point_pair);
           row = transpose_times (nhat_BA_W point_pair) (jacobian_sub Jv_WAc Jv_WBc)
       in (case CalcNormalSeparationVelocitiesJacobian plant ext context rest of
             Inl e \<Rightarrow> Inl e
           | Inr rows \<Rightarrow> Inr (row # rows))))"

text \<open>
  \<^verbatim>\<open>
  MatrixX<T> CalcTangentVelocitiesJacobian(context, point_pairs_set, R_WC_set) const {
    const int num_contacts = point_pairs_set.size();
    MatrixX<T> D(2 * num_contacts, num_velocities());
    R_WC_set->clear();
    for (int icontact = 0; icontact < num_contacts; ++icontact) {
      ...
      const T& x = point_pair.depth;
      DRAKE_ASSERT(x >= 0);
      const Matrix3<T> R_WC = math::ComputeBasisFromAxis(2, nhat_BA_W);
      R_WC_set->push_back(R_WC);
      const Vector3<T> that1_W = R_WC.col(0);  // that1 = Cx.
      const Vector3<T> that2_W = R_WC.col(1);  // that2 = Cy.
      ... Jv_WAc, Jv_WBc as above ...
      D.row(2 * icontact)     = that1_W.transpose() * (Jv_WBc - Jv_WAc);
      D.row(2 * icontact + 1) = that2_W.transpose() * (Jv_WBc - Jv_WAc);
    }
    return D;
  }
  \<close>
\<close>

fun CalcTangentVelocitiesJacobian ::
  "MultibodyPlant \<Rightarrow> Collaborators \<Rightarrow> Context \<Rightarrow> PenetrationAsPointPair list \<Rightarrow>
     error + real list list \<times> Matrix3 list" where
  "CalcTangentVelocitiesJacobian plant ext context [] = Inr ([], [])"
| "CalcTangentVelocitiesJacobian plant ext context (point_pair # rest) =
     (case geometry_id_to_body_index plant (id_A point_pair) of
        None \<Rightarrow> Inl OutOfRange
      | Some bodyA_index \<Rightarrow>
     (case geometry_id_to_body_index plant (id_B point_pair) of
        None \<Rightarrow> Inl OutOfRange
      | Some bodyB_index \<Rightarrow>
     if \<not> (bodyA_index < num_bodies plant \<and> bodyB_index < num_bodies plant)
       then Inl (AssertFailed ''body_index < num_bodies()'')
     else if \<not> depth point_pair \<ge> 0 then Inl (AssertFailed ''x >= 0'')
     else
       let R_WC = ComputeBasisFromAxis ext 2 (nhat_BA_W point_pair);
           that1_W = fst R_WC;
           that2_W = fst (snd R_WC);
           Jv_WAc = CalcPointsGeometricJacobianExpressedInWorld ext context bodyA_index
                      (p_WCa point_pair);
           Jv_WBc = CalcPointsGeometricJacobianExpressedInWorld ext context bodyB_index
                      (p_WCb point_pair);
           row1 = transpose_times that1_W (jacobian_sub Jv_WBc Jv_WAc);
           row2 = transpose_times that2_W (jacobian_sub Jv_WBc Jv_WAc)
       in (case CalcTangentVelocitiesJacobian plant ext context rest of
             Inl e \<Rightarrow> Inl e
           | Inr (rows, R_WC_set) \<Rightarrow> Inr (row1 # row2 # rows, R_WC # R_WC_set))))"

section \<open>Applied forces\<close>

definition num_joints :: "MultibodyPlant \<Rightarrow> nat" where
  "num_joints plant = tree_num_joints (model plant)"

definition num_actuators :: "MultibodyPlant \<Rightarrow> nat" where
  "num_actuators plant = length (tree_actuator_joint_num_dofs (model plant))"

definition num_actuated_dofs :: "MultibodyPlant \<Rightarrow> nat" where
  "num_actuated_dofs plant = tree_num_actuated_dofs (model plant)"

definition num_model_instances :: "MultibodyPlant \<Rightarrow> nat" where
  "num_model_instances plant = length (tree_instance_num_actuated_dofs (model plant))"

text \<open>
  \<^verbatim>\<open>
  void AddJointDampingForces(context, forces) const {
    for (JointIndex joint_index(0); joint_index < num_joints(); ++joint_index) {
      const Joint<T>& joint = model().get_joint(joint_index);
      joint.AddInDamping(context, forces);
    }
  }
  \<close>
\<close>

definition AddJointDampingForces ::
  "MultibodyPlant \<Rightarrow> Collaborators \<Rightarrow> Context \<Rightarrow> MultibodyForces \<Rightarrow> MultibodyForces" where
  "AddJointDampingForces plant ext context forces =
     fold (\<lambda>joint_index f. Joint_AddInDamping ext joint_index context f)
       [0..<num_joints plant] forces"

text \<open>
  \<^verbatim>\<open>
  VectorX<T> AssembleActuationInput(context) const {
    VectorX<T> actuation_input(num_actuated_dofs());
    int u_offset = 0;
    for (ModelInstanceIndex model_instance_index(0);
         model_instance_index < num_model_instances(); ++model_instance_index) {
      const int instance_num_dofs = model_->num_actuated_dofs(model_instance_index);
      if (instance_num_dofs == 0) { continue; }
      Eigen::VectorBlock<const VectorX<T>> u_instance =
          this->EvalEigenVectorInput(context, instance_actuation_ports_[model_instance_index]);
      actuation_input.segment(u_offset, instance_num_dofs) = u_instance;
      u_offset += instance_num_dofs;
    }
    DRAKE_ASSERT(u_offset == num_actuated_dofs());
    return actuation_input;
  }
  \<close>
  The segments are written one after the other from offset 0, so the vector is their
  concatenation; a segment and the input written into it must agree in size.
\<close>

fun AssembleActuationInput_loop ::
  "MultibodyPlant \<Rightarrow> Context \<Rightarrow> nat list \<Rightarrow> error + real list" where
  "AssembleActuationInput_loop plant context [] = Inr []"
| "AssembleActuationInput_loop plant context (model_instance_index # rest) =
     (let instance_num_dofs =
            tree_instance_num_actuated_dofs (model plant) ! model_instance_index
      in if instance_num_dofs = 0 then AssembleActuationInput_loop plant context rest
         else if \<not> model_instance_index < length (instance_actuation_ports plant)
           then Inl OutOfRange
         else
           let u_instance =
                 vector_input context (instance_actuation_ports plant ! model_instance_index)
           in if length u_instance \<noteq> instance_num_dofs
                then Inl (AssertFailed ''segment size'')
              else
                (case AssembleActuationInput_loop plant context rest of
                   Inl e \<Rightarrow> Inl e
                 | Inr u_rest \<Rightarrow> Inr (u_instance @ u_rest)))"

definition AssembleActuationInput :: "MultibodyPlant \<Rightarrow> Context \<Rightarrow> error + real list" where
  "AssembleActuationInput plant context =
     (case AssembleActuationInput_loop plant context [0..<num_model_instances plant] of
        Inl e \<Rightarrow> Inl e
      | Inr actuation_input \<Rightarrow>
          if length actuation_input \<noteq> num_actuated_dofs plant
          then Inl (AssertFailed ''u_offset == num_actuated_dofs()'')
          else Inr actuation_input)"

text \<open>
  \<^verbatim>\<open>
  void AddJointActuationForces(context, forces) const {
    if (num_actuators() > 0) {
      const VectorX<T> u = AssembleActuationInput(context);
      for (JointActuatorIndex actuator_index(0);
           actuator_index < num_actuators(); ++actuator_index) {
        const JointActuator<T>& actuator = model().get_joint_actuator(actuator_index);
        DRAKE_DEMAND(actuator.joint().num_dofs() == 1);
        for (int joint_dof = 0; joint_dof < actuator.joint().num_dofs(); ++joint_dof) {
          actuator.AddInOneForce(context, joint_dof, u[actuator_index], forces);
        }
      }
    }
  }
  \<close>
\<close>

fun AddJointActuationForces_loop ::
  "MultibodyPlant \<Rightarrow> Collaborators \<Rightarrow> Context \<Rightarrow> real list \<Rightarrow> nat list \<Rightarrow> MultibodyForces \<Rightarrow>
     error + MultibodyForces" where
  "AddJointActuationForces_loop plant ext context u [] forces = Inr forces"
| "AddJointActuationForces_loop plant ext context u (actuator_index # rest) forces =
     (let joint_num_dofs = tree_actuator_joint_num_dofs (model plant) ! actuator_index
      in if joint_num_dofs \<noteq> 1 then Inl (AssertFailed ''actuator.joint().num_dofs() == 1'')
         else if \<not> actuator_index < length u then Inl (AssertFailed ''index < size()'')
         else AddJointActuationForces_loop plant ext context u rest
                (fold (\<lambda>joint_dof f.
                         JointActuator_AddInOneForce ext actuator_index context joint_dof
                           (u ! actuator_index) f)
                   [0..<joint_num_dofs] forces))"

definition AddJointActuationForces ::
  "MultibodyPlant \<Rightarrow> Collaborators \<Rightarrow> Context \<Rightarrow> MultibodyForces \<Rightarrow> error + MultibodyForces"
  where
  "AddJointActuationForces plant ext context forces =
     (if num_actuators plant > 0 then
        (case AssembleActuationInput plant context of
           Inl e \<Rightarrow> Inl e
         | Inr u \<Rightarrow>
             AddJointActuationForces_loop plant ext context u [0..<num_actuators plant] forces)
      else Inr forces)"

section \<open>Point pairs and contact results\<close>

text \<open>
  \<^verbatim>\<open>
  std::vector<PenetrationAsPointPair<double>>
  MultibodyPlant<double>::CalcPointPairPenetrations(context) const {
    if (num_collision_geometries() > 0) {
      if (!geometry_query_port_.is_valid()) {
        throw std::logic_error("This MultibodyPlant registered geometry for contact handling. "
            "However its query input port (get_geometry_query_input_port()) "
            "is not connected. ");
      }
      const geometry::QueryObject<double>& query_object = ...;
      return query_object.ComputePointPairPenetration();
    }
    return std::vector<PenetrationAsPointPair<double>>();
  }
  \<close>
\<close>

definition query_port_message :: string where
  "query_port_message =
     ''This MultibodyPlant registered geometry for contact handling. ''
     @ ''However its query input port (get_geometry_query_input_port()) ''
     @ ''is not connected. ''"

definition CalcPointPairPenetrations ::
  "MultibodyPlant \<Rightarrow> Context \<Rightarrow> error + PenetrationAsPointPair list" where
  "CalcPointPairPenetrations plant context =
     (if num_collision_geometries plant > 0 then
        (if geometry_query_port plant = None then Inl (LogicError query_port_message)
         else Inr (query_point_pairs context))
      else Inr [])"




section \<open>The discrete update\<close>

text \<open>
  \<^verbatim>\<open>DoCalcDiscreteVariableUpdates\<close> in two parts. The first runs from the entry of the
  method to the call of \<^verbatim>\<open>SetTwoWayCoupledProblemData\<close> and yields the state read from
  the context, the point pairs, the contact frames and the data handed to the solver:
  \<^verbatim>\<open>
    DRAKE_ASSERT(context0.get_num_discrete_state_groups() == 1);
    DRAKE_ASSERT(context0.get_continuous_state().size() == 0);
    const double dt = time_step_;
    const int nq = this->num_positions();
    const int nv = this->num_velocities();
    auto x0 = context0.get_discrete_state(0).get_value();
    VectorX<T> q0 = x0.topRows(nq);
    VectorX<T> v0 = x0.bottomRows(nv);
    MatrixX<T> M0(nv, nv);
    model_->CalcMassMatrixViaInverseDynamics(context0, &M0);
    MultibodyForces<T> forces0(*model_);
    const PositionKinematicsCache<T>& pc0 = EvalPositionKinematics(context0);
    const VelocityKinematicsCache<T>& vc0 = EvalVelocityKinematics(context0);
    model_->CalcForceElementsContribution(context0, pc0, vc0, &forces0);
    AddJointActuationForces(context0, &forces0);
    AddJointDampingForces(context0, &forces0);
    const std::vector<PenetrationAsPointPair<T>> point_pairs0 =
        CalcPointPairPenetrations(context0);
    std::vector<SpatialAcceleration<T>> A_WB_array(model_->num_bodies());
    VectorX<T> vdot = VectorX<T>::Zero(nv);
    std::vector<SpatialForce<T>>& F_BBo_W_array = forces0.mutable_body_forces();
    // With vdot = 0, this computes:
    //   -tau = C(q, v)v - tau_app - sum J_WB^T(q) Fapp_Bo_W.
    VectorX<T>& minus_tau = forces0.mutable_generalized_forces();
    model_->CalcInverseDynamics(context0, pc0, vc0, vdot, F_BBo_W_array, minus_tau,
        &A_WB_array, &F_BBo_W_array, &minus_tau);
    VectorX<T> p_star = M0 * v0 - dt * minus_tau;
    const int num_contacts = point_pairs0.size();
    MatrixX<T> Jn(num_contacts, nv);
    MatrixX<T> Jt(2 * num_contacts, nv);
    std::vector<Matrix3<T>> R_WC_set;
    if (num_contacts > 0) {
      Jn = CalcNormalSeparationVelocitiesJacobian(context0, point_pairs0);
      Jt = CalcTangentVelocitiesJacobian(context0, point_pairs0, &R_WC_set);
    }
    // Get friction coefficient into a single vector. Dynamic friction is ignored
    // by the time stepping scheme.
    std::vector<CoulombFriction<double>> combined_friction_pairs =
        CalcCombinedFrictionCoefficients(point_pairs0);
    VectorX<T> mu(num_contacts);
    std::transform(combined_friction_pairs.begin(), combined_friction_pairs.end(), mu.data(),
                   [](const CoulombFriction<double>& coulomb_friction) {
                     return coulomb_friction.static_friction();
                   });
    VectorX<T> phi0(num_contacts);
    std::transform(point_pairs0.begin(), point_pairs0.end(), phi0.data(),
                   [](const PenetrationAsPointPair<T>& pair) { return pair.depth; });
    VectorX<T> stiffness = VectorX<T>::Constant(
        num_contacts, penalty_method_contact_parameters_.stiffness);
    VectorX<T> damping = VectorX<T>::Constant(
        num_contacts, penalty_method_contact_parameters_.damping);
    implicit_stribeck_solver_->SetTwoWayCoupledProblemData(
        &M0, &Jn, &Jt, &p_star, &phi0, &stiffness, &damping, &mu);
  \<close>
  \<^verbatim>\<open>topRows(nq)\<close> and \<^verbatim>\<open>bottomRows(nv)\<close> are the first \<open>nq\<close> and the last \<open>nv\<close> entries;
  Eigen asserts that the vector has that many.
\<close>

definition EvalPositionKinematics :: "Collaborators \<Rightarrow> Context \<Rightarrow> PositionKinematicsCache" where
  "EvalPositionKinematics ext context = CalcPositionKinematicsCache ext context"

definition EvalVelocityKinematics :: "Collaborators \<Rightarrow> Context \<Rightarrow> VelocityKinematicsCache" where
  "EvalVelocityKinematics ext context =
     (let pc = EvalPositionKinematics ext context
      in CalcVelocityKinematicsCache ext context pc)"

definition friction_vector :: "CoulombFriction list \<Rightarrow> real list" where
  "friction_vector combined_friction_pairs =
     map (\<lambda>coulomb_friction. static_friction coulomb_friction) combined_friction_pairs"

record DiscreteStep =
  step_q0 :: "real list"
  step_v0 :: "real list"
  step_point_pairs0 :: "PenetrationAsPointPair list"
  step_R_WC_set :: "Matrix3 list"
  step_problem :: ProblemData

definition SetUpDiscreteProblem ::
  "MultibodyPlant \<Rightarrow> Collaborators \<Rightarrow> Context \<Rightarrow> error + DiscreteStep" where
  "SetUpDiscreteProblem plant ext context0 =
     (if length (discrete_state context0) \<noteq> 1
        then Inl (AssertFailed ''context0.get_num_discrete_state_groups() == 1'')
      else if length (continuous_state_vector context0) \<noteq> 0
        then Inl (AssertFailed ''context0.get_continuous_state().size() == 0'')
      else
        let dt = time_step plant;
            nq = num_positions plant;
            nv = num_velocities plant;
            x0 = discrete_state context0 ! 0
        in if \<not> (nq \<le> length x0 \<and> nv \<le> length x0)
             then Inl (AssertFailed ''rows of the block <= rows()'')
           else
             let q0 = take nq x0;
                 v0 = drop (length x0 - nv) x0;
                 M0 = CalcMassMatrixViaInverseDynamics ext context0;
                 pc0 = EvalPositionKinematics ext context0;
                 vc0 = EvalVelocityKinematics ext context0;
                 forces0 = CalcForceElementsContribution ext context0 pc0 vc0
             in (case AddJointActuationForces plant ext context0 forces0 of
                   Inl e \<Rightarrow> Inl e
                 | Inr forces1 \<Rightarrow>
                let forces2 = AddJointDampingForces plant ext context0 forces1
                in (case CalcPointPairPenetrations plant context0 of
                      Inl e \<Rightarrow> Inl e
                    | Inr point_pairs0 \<Rightarrow>
                   let vdot = replicate nv 0;
                       minus_tau =
                         snd (snd (CalcInverseDynamics ext context0 pc0 vc0 vdot
                                     (body_forces forces2) (generalized_forces forces2)));
                       p_star = vec_sub (mat_vec M0 v0) (vec_scale dt minus_tau);
                       num_contacts = length point_pairs0
                   in (case (if num_contacts > 0 then
                               (case CalcNormalSeparationVelocitiesJacobian plant ext context0
                                       point_pairs0 of
                                  Inl e \<Rightarrow> Inl e
                                | Inr Jn \<Rightarrow>
                                    (case CalcTangentVelocitiesJacobian plant ext context0
                                            point_pairs0 of
                                       Inl e \<Rightarrow> Inl e
                                     | Inr (Jt, R_WC_set) \<Rightarrow> Inr (Jn, Jt, R_WC_set)))
                             else Inr ([], [], [])) of
                         Inl e \<Rightarrow> Inl e
                       | Inr (Jn, Jt, R_WC_set) \<Rightarrow>
                      (case CalcCombinedFrictionCoefficients plant point_pairs0 of
                         Inl e \<Rightarrow> Inl e
                       | Inr combined_friction_pairs \<Rightarrow>
                           let mu = friction_vector combined_friction_pairs;
                               phi0 = map depth point_pairs0;
                               stiffness' = replicate num_contacts
                                   (stiffness (penalty_method_contact_parameters plant));
                               damping' = replicate num_contacts
                                   (damping (penalty_method_contact_parameters plant))
                           in Inr \<lparr>step_q0 = q0, step_v0 = v0,
                                   step_point_pairs0 = point_pairs0,
                                   step_R_WC_set = R_WC_set,
                                   step_problem =
                                     \<lparr>pd_M = M0, pd_Jn = Jn, pd_Jt = Jt, pd_p_star = p_star,
                                      pd_phi0 = phi0, pd_stiffness = stiffness',
                                      pd_damping = damping', pd_mu = mu\<rparr>\<rparr>)))))"


section \<open>The other methods that test the state of the topology\<close>



















definition get_geometry_query_input_port :: "MultibodyPlant \<Rightarrow> error + nat" where
  "get_geometry_query_input_port plant =
     (case ThrowIfNotFinalized plant ''get_geometry_query_input_port'' of
        Some e \<Rightarrow> Inl e
      | None \<Rightarrow>
          if \<not> geometry_source_is_registered plant
            then Inl (AssertFailed ''geometry_source_is_registered()'')
          else (case geometry_query_port plant of
                  Some port \<Rightarrow> Inr port
                | None \<Rightarrow> Inl OutOfRange))"

section \<open>A concrete plant\<close>

text \<open>
  The closed instances below are evaluated on a plant with the world and two bodies, one
  collision geometry on each, the time step and the state of the topology left open.
\<close>

definition example_bodies :: "Body list" where
  "example_bodies =
     [\<lparr>body_index = 0, node_index = 0, body_name = ''WorldBody'', get_default_mass = 0\<rparr>,
      \<lparr>body_index = 1, node_index = 1, body_name = ''ball'', get_default_mass = 2\<rparr>,
      \<lparr>body_index = 2, node_index = 2, body_name = ''box'', get_default_mass = 1\<rparr>]"

definition example_plant :: "real \<Rightarrow> bool \<Rightarrow> MultibodyPlant" where
  "example_plant dt fin =
     \<lparr>time_step = dt,
      model = \<lparr>topology_is_valid = fin, tree_bodies = example_bodies,
               tree_num_positions = 2, tree_num_velocities = 2, tree_num_joints = 2,
               tree_actuator_joint_num_dofs = [1], tree_num_actuated_dofs = 1,
               tree_instance_num_actuated_dofs = [0, 1],
               tree_instance_num_positions = [0, 2],
               tree_instance_num_velocities = [0, 2]\<rparr>,
      source_id = Some 0,
      scene_graph = None,
      body_index_to_frame_id = [1 \<mapsto> 0, 2 \<mapsto> 1],
      geometry_id_to_body_index = [0 \<mapsto> 0, 1 \<mapsto> 1, 2 \<mapsto> 2],
      geometry_id_to_visual_index = Map.empty,
      geometry_id_to_collision_index = [0 \<mapsto> 0, 1 \<mapsto> 1, 2 \<mapsto> 2],
      visual_geometries = [[], [], []],
      collision_geometries = [[0], [1], [2]],
      default_coulomb_friction =
        [\<lparr>static_friction = 1, dynamic_friction = 1 / 2\<rparr>,
         \<lparr>static_friction = 1, dynamic_friction = 1 / 2\<rparr>,
         \<lparr>static_friction = 1, dynamic_friction = 1 / 2\<rparr>],
      gravity_field = Some (0, 0, - 2),
      penalty_method_contact_parameters = \<lparr>stiffness = 0, damping = 0, time_scale = - 1\<rparr>,
      stribeck_model = StribeckModel_set_stiction_tolerance 1,
      instance_actuation_ports = [0, 0],
      actuated_instance = Some 1,
      continuous_state_output_port = 0,
      instance_continuous_state_output_ports = [0, 2],
      instance_generalized_contact_forces_output_ports = [0, 3],
      contact_results_port = 1,
      geometry_query_port = Some 0,
      geometry_pose_port = Some 4\<rparr>"

text \<open>
  The same plant with penalty parameters set, a rigid shift for spatial velocities, the
  kinematics caches of a ball above and a box below the origin, a stand-in for the
  solver that ignores the contacts, and the collaborators of a tree whose two
  velocities are the vertical speeds of the ball and of the box.
\<close>

definition example_contact_plant :: "real \<Rightarrow> MultibodyPlant" where
  "example_contact_plant dt =
     (example_plant dt True)\<lparr>penalty_method_contact_parameters :=
        \<lparr>stiffness = 8, damping = 1, time_scale = 1 / 2\<rparr>\<rparr>"

definition rigid_shift :: "SpatialVector \<Rightarrow> Vector3 \<Rightarrow> SpatialVector" where
  "rigid_shift V p =
     \<lparr>rotational = rotational V,
      translational = vadd (translational V) (cross (rotational V) p)\<rparr>"

definition zero_spatial :: SpatialVector where
  "zero_spatial = \<lparr>rotational = Zero3, translational = Zero3\<rparr>"

definition example_pc :: PositionKinematicsCache where
  "example_pc n = (if n = 1 then (0, 0, 1) else if n = 2 then (0, 0, - 1) else (0, 0, 0))"

definition example_vc :: "Vector3 \<Rightarrow> VelocityKinematicsCache" where
  "example_vc v n = (if n = 1 then \<lparr>rotational = Zero3, translational = v\<rparr> else zero_spatial)"

definition stub_solver :: "ProblemData \<Rightarrow> real \<Rightarrow> real list \<Rightarrow> ComputationInfo \<times> SolverResults"
  where
  "stub_solver pd dt v_guess =
     (Success,
      \<lparr>get_generalized_velocities = map2 (\<lambda>row p. p / sum_list row) (pd_M pd) (pd_p_star pd),
       get_normal_forces = map (\<lambda>_. 0) (pd_phi0 pd),
       get_friction_forces = concat (map (\<lambda>_. [0, 0]) (pd_phi0 pd)),
       get_tangential_velocities = concat (map (\<lambda>_. [0, 0]) (pd_phi0 pd)),
       get_normal_velocities = map (\<lambda>_. 0) (pd_phi0 pd)\<rparr>)"

definition example_ext :: Collaborators where
  "example_ext =
     \<lparr>SpatialVelocity_Shift = rigid_shift,
      ComputeBasisFromAxis = (\<lambda>axis n. ((1, 0, 0), (0, 1, 0), n)),
      CalcMassMatrixViaInverseDynamics = (\<lambda>context. [[2, 0], [0, 1]]),
      CalcPositionKinematicsCache = (\<lambda>context. example_pc),
      CalcVelocityKinematicsCache = (\<lambda>context pc. example_vc (0, 0, - 1)),
      CalcForceElementsContribution =
        (\<lambda>context pc vc. \<lparr>body_forces = [zero_spatial, zero_spatial, zero_spatial],
                           generalized_forces = [- 4, - 2]\<rparr>),
      CalcInverseDynamics = (\<lambda>context pc vc vdot F tau. ([], F, map uminus tau)),
      CalcPointsGeometricJacobianExpressedInWorld =
        (\<lambda>context body p. if body = 1 then [(0, 0, 1), (0, 0, 0)]
                           else if body = 2 then [(0, 0, 0), (0, 0, 1)]
                           else [(0, 0, 0), (0, 0, 0)]),
      MapVelocityToQDot = (\<lambda>context v. v),
      Joint_AddInDamping = (\<lambda>joint context forces. forces),
      JointActuator_AddInOneForce =
        (\<lambda>actuator context dof u forces.
           forces\<lparr>generalized_forces :=
                    (generalized_forces forces)[actuator := generalized_forces forces ! actuator + u]\<rparr>),
      SolveWithGuess = stub_solver,
      get_positions_from_array = (\<lambda>model_instance q. if model_instance = 1 then q else []),
      get_velocities_from_array = (\<lambda>model_instance v. if model_instance = 1 then v else [])\<rparr>"

definition example_pair :: "GeometryId \<Rightarrow> GeometryId \<Rightarrow> PenetrationAsPointPair" where
  "example_pair a b =
     \<lparr>id_A = a, id_B = b, p_WCa = (0, 0, - 1 / 4), p_WCb = (0, 0, 1 / 4),
      nhat_BA_W = (0, 0, 1), depth = 1 / 2\<rparr>"

definition example_context :: Context where
  "example_context =
     \<lparr>discrete_state = [[1, - 1, - 1, 0]],
      continuous_state_vector = [],
      vector_input = (\<lambda>port. [3]),
      query_point_pairs = [example_pair 1 0]\<rparr>"

definition example_step :: DiscreteStep where
  "example_step =
     \<lparr>step_q0 = [1, - 1], step_v0 = [- 1, 0],
      step_point_pairs0 = [example_pair 1 0],
      step_R_WC_set = [((1, 0, 0), (0, 1, 0), (0, 0, 1))],
      step_problem =
        \<lparr>pd_M = [[2, 0], [0, 1]], pd_Jn = [[1, 0]], pd_Jt = [[0, 0], [0, 0]],
         pd_p_star = [- 5 / 2, - 1], pd_phi0 = [1 / 2], pd_stiffness = [8],
         pd_damping = [1], pd_mu = [1]\<rparr>\<rparr>"





section \<open>Properties of the Stribeck model\<close>

lemma step5_in_range:
  "0 \<le> x \<Longrightarrow> x \<le> 1 \<Longrightarrow> step5 x = Inr (step5_spec x)"
  by (simp add: step5_def step5_spec_def Let_def power3_eq_cube power4_eq_xxxx
      power_def algebra_simps)

text \<open>
  Claim C3. For a non-negative slip speed and a friction pair \<open>(\<mu>\<^sub>s, \<mu>\<^sub>d)\<close>, with
  \<open>s = speed / v*\<close>, the Stribeck coefficient is \<open>\<mu>\<^sub>d\<close> when \<open>s \<ge> 3\<close>,
  \<open>\<mu>\<^sub>s - (\<mu>\<^sub>s - \<mu>\<^sub>d) step5((s - 1) / 2)\<close> when \<open>1 \<le> s < 3\<close>, and \<open>\<mu>\<^sub>s step5(s)\<close> when
  \<open>0 \<le> s < 1\<close>, where \<open>step5(x) = 10x\<^sup>3 - 15x\<^sup>4 + 6x\<^sup>5\<close>.
\<close>

theorem ComputeFrictionCoefficient_piecewise:
  assumes "0 \<le> speed" and "0 < v_stiction"
  shows "ComputeFrictionCoefficient (StribeckModel_set_stiction_tolerance v_stiction) speed
           \<lparr>static_friction = mu_s, dynamic_friction = mu_d\<rparr> =
         Inr (let s = speed / v_stiction in
              if s \<ge> 3 then mu_d
              else if 1 \<le> s then mu_s - (mu_s - mu_d) * step5_spec ((s - 1) / 2)
              else mu_s * step5_spec s)"
proof -
  let ?s = "speed / v_stiction"
  have s0: "0 \<le> ?s" using assms by simp
  show ?thesis
  proof (cases "?s \<ge> 3")
    case True
    then show ?thesis using assms
      by (simp add: ComputeFrictionCoefficient_def StribeckModel_set_stiction_tolerance_def)
  next
    case False
    note lt3 = this
    show ?thesis
    proof (cases "?s \<ge> 1")
      case True
      have "0 \<le> (?s - 1) / 2" "(?s - 1) / 2 \<le> 1" using True lt3 by simp_all
      then have "step5 ((?s - 1) / 2) = Inr (step5_spec ((?s - 1) / 2))"
        by (rule step5_in_range)
      then show ?thesis using assms True lt3
        by (simp add: ComputeFrictionCoefficient_def StribeckModel_set_stiction_tolerance_def
            Let_def)
    next
      case False
      have "step5 ?s = Inr (step5_spec ?s)" using s0 False by (intro step5_in_range) simp_all
      then show ?thesis using assms False lt3
        by (simp add: ComputeFrictionCoefficient_def StribeckModel_set_stiction_tolerance_def
            Let_def)
    qed
  qed
qed

theorem ComputeFrictionCoefficient_piecewise_witness:
  "(0::real) \<le> 2 \<and> (0::real) < 1 \<and>
   ComputeFrictionCoefficient (StribeckModel_set_stiction_tolerance 1) 2
     \<lparr>static_friction = 1, dynamic_friction = 1 / 2\<rparr> = Inr (3 / 4)"
  using ComputeFrictionCoefficient_piecewise [of 2 1 1 "1 / 2"]
  by (simp add: step5_spec_def power_divide)

lemma ComputeFrictionCoefficient_returns:
  assumes "0 \<le> speed" and "0 \<le> inv_v_stiction_tolerance stribeck"
  shows "\<exists>mu. ComputeFrictionCoefficient stribeck speed friction = Inr mu"
proof -
  let ?v = "speed * inv_v_stiction_tolerance stribeck"
  have v0: "0 \<le> ?v" using assms by simp
  show ?thesis
  proof (cases "?v \<ge> 3")
    case True
    then show ?thesis using assms by (simp add: ComputeFrictionCoefficient_def)
  next
    case False
    show ?thesis
    proof (cases "?v \<ge> 1")
      case True
      then show ?thesis using assms False
        by (simp add: ComputeFrictionCoefficient_def step5_def Let_def)
    next
      case False
      then show ?thesis using assms v0
        by (simp add: ComputeFrictionCoefficient_def step5_def Let_def)
    qed
  qed
qed

text \<open>
  Claim C10. For a non-negative slip speed and a strictly positive stiction tolerance,
  \<open>ComputeFrictionCoefficient\<close> evaluates \<open>step5\<close> only at an argument in \<open>[0, 1]\<close>:
  at \<open>s\<close> itself when \<open>s < 1\<close>, at \<open>(s - 1) / 2\<close>, which lies in \<open>[0, 1)\<close>, when
  \<open>1 \<le> s < 3\<close>. No assertion fails, and the computation returns a coefficient.
\<close>

theorem step5_assertion_never_fails:
  assumes "0 \<le> speed" and "0 < v_stiction"
  shows "(\<exists>mu. ComputeFrictionCoefficient (StribeckModel_set_stiction_tolerance v_stiction)
                  speed friction = Inr mu) \<and>
         (let s = speed * inv_v_stiction_tolerance (StribeckModel_set_stiction_tolerance v_stiction)
          in (s < 1 \<longrightarrow> 0 \<le> s \<and> s \<le> 1 \<and>
                ComputeFrictionCoefficient (StribeckModel_set_stiction_tolerance v_stiction)
                  speed friction = map_sum id (\<lambda>y. static_friction friction * y) (step5 s)) \<and>
             (1 \<le> s \<and> s < 3 \<longrightarrow> 0 \<le> (s - 1) / 2 \<and> (s - 1) / 2 < 1 \<and>
                ComputeFrictionCoefficient (StribeckModel_set_stiction_tolerance v_stiction)
                  speed friction =
                map_sum id (\<lambda>y. static_friction friction
                                 - (static_friction friction - dynamic_friction friction) * y)
                  (step5 ((s - 1) / 2))))"
proof -
  let ?m = "StribeckModel_set_stiction_tolerance v_stiction"
  have inv0: "0 \<le> inv_v_stiction_tolerance ?m"
    using assms by (simp add: StribeckModel_set_stiction_tolerance_def)
  have s0: "0 \<le> speed * inv_v_stiction_tolerance ?m" using assms inv0 by simp
  have tot: "\<exists>mu. ComputeFrictionCoefficient ?m speed friction = Inr mu"
    using assms(1) inv0 by (rule ComputeFrictionCoefficient_returns)
  have br: "\<And>s. s = speed * inv_v_stiction_tolerance ?m \<Longrightarrow>
      (s < 1 \<longrightarrow> 0 \<le> s \<and> s \<le> 1 \<and>
                ComputeFrictionCoefficient ?m speed friction
                 = map_sum id (\<lambda>y. static_friction friction * y) (step5 s)) \<and>
             (1 \<le> s \<and> s < 3 \<longrightarrow> 0 \<le> (s - 1) / 2 \<and> (s - 1) / 2 < 1 \<and>
                ComputeFrictionCoefficient ?m speed friction =
                map_sum id (\<lambda>y. static_friction friction
                                 - (static_friction friction - dynamic_friction friction) * y)
                  (step5 ((s - 1) / 2)))"
    using assms(1) s0
    by (auto simp add: ComputeFrictionCoefficient_def Let_def split: sum.splits)
  show ?thesis using tot br by (simp add: Let_def)
qed

theorem step5_assertion_never_fails_witness:
  "(0::real) \<le> 1 / 2 \<and> (0::real) \<le> 2 \<and> (0::real) < 1 \<and>
   ComputeFrictionCoefficient (StribeckModel_set_stiction_tolerance 1) (1 / 2)
      \<lparr>static_friction = 1, dynamic_friction = 1 / 2\<rparr> = Inr (1 / 2) \<and>
   ComputeFrictionCoefficient (StribeckModel_set_stiction_tolerance 1) 2
      \<lparr>static_friction = 1, dynamic_friction = 1 / 2\<rparr> = Inr (3 / 4)"
  using step5_assertion_never_fails [of "1 / 2" 1 "\<lparr>static_friction = 1, dynamic_friction = 1 / 2\<rparr>"]
    step5_assertion_never_fails [of 2 1 "\<lparr>static_friction = 1, dynamic_friction = 1 / 2\<rparr>"]
  by (simp add: StribeckModel_set_stiction_tolerance_def step5_def Let_def)

section \<open>Properties of the penetration allowance\<close>

lemma fold_max_indices:
  "fold (\<lambda>i m. max m (f (xs ! i))) [0..<length xs] (a::real) = Max (insert a (f ` set xs))"
proof -
  have "fold (\<lambda>i m. max m (f (xs ! i))) [0..<length xs] a
        = fold ((\<lambda>b m. max m (f b)) \<circ> (!) xs) [0..<length xs] a"
    by (simp add: comp_def)
  also have "\<dots> = fold (\<lambda>b m. max m (f b)) (map ((!) xs) [0..<length xs]) a"
    by (simp add: fold_map)
  also have "\<dots> = fold (\<lambda>b m. max m (f b)) xs a"
    by (simp add: map_nth)
  also have "\<dots> = fold (max \<circ> f) xs a"
  proof -
    have "(\<lambda>b m. max m (f b)) = max \<circ> f"
      by (intro ext) (simp add: max.commute)
    then show ?thesis by simp
  qed
  also have "\<dots> = fold max (map f xs) a"
    by (simp add: fold_map)
  also have "\<dots> = Max (set (a # map f xs))"
    by (simp only: Max.set_eq_fold)
  finally show ?thesis by simp
qed

lemma max_default_mass_Max:
  assumes "\<exists>b \<in> set (tree_bodies (model plant)). 0 \<le> get_default_mass b"
  shows "max_default_mass plant = Max (get_default_mass ` set (tree_bodies (model plant)))"
proof -
  let ?S = "get_default_mass ` set (tree_bodies (model plant))"
  have ne: "?S \<noteq> {}" using assms by auto
  from assms obtain b where b: "b \<in> set (tree_bodies (model plant))" "0 \<le> get_default_mass b"
    by blast
  have "get_default_mass b \<le> Max ?S" using b(1) by (intro Max_ge) simp_all
  then have "0 \<le> Max ?S" using b(2) by linarith
  then have "Max (insert 0 ?S) = Max ?S" using ne by (simp add: max_def)
  then show ?thesis
    by (simp add: max_default_mass_def num_bodies_def get_body_def fold_max_indices)
qed

text \<open>
  Claim C5. On a finalized plant, for a penetration allowance \<open>\<delta> > 0\<close>,
  \<open>set_penetration_allowance\<close> takes \<open>m\<close> as the maximum default mass over all
  bodies, the world included, \<open>g\<close> as the norm of the configured gravity vector, or
  9.81 when none is configured, and stores the stiffness \<open>k = m g / \<delta>\<close>, the time scale
  \<open>\<tau>\<^sub>c = 1 / \<surd>(k / m)\<close> and the damping \<open>d = \<tau>\<^sub>c / \<delta>\<close>; the stored parameters
  are these three values whatever they were before the call. The statement is for a
  plant with a body of positive default mass and a gravity vector that is not zero:
  there \<open>m\<close>, \<open>g\<close>, \<open>k\<close> and \<open>\<surd>(k / m)\<close> are positive, so no quotient of the source
  has a zero divisor, and the running maximum of the source, which starts at 0, is the
  maximum over the bodies.
\<close>

theorem set_penetration_allowance_parameters:
  assumes "is_finalized plant" and "0 < penetration_allowance"
    and "\<exists>b \<in> set (tree_bodies (model plant)). 0 < get_default_mass b"
    and "\<forall>gravity_vector. gravity_field plant = Some gravity_vector \<longrightarrow>
           0 < norm3 gravity_vector"
  shows "let m = Max (get_default_mass ` set (tree_bodies (model plant)));
             g = (case gravity_field plant of Some gravity_vector \<Rightarrow> norm3 gravity_vector
                  | None \<Rightarrow> 9.81);
             k = m * g / penetration_allowance;
             tau_c = 1 / sqrt (k / m);
             d = tau_c / penetration_allowance
         in 0 < m \<and> 0 < g \<and> 0 < k \<and> 0 < sqrt (k / m) \<and>
            set_penetration_allowance plant penetration_allowance =
              (Inr (), plant\<lparr>penalty_method_contact_parameters :=
                               \<lparr>stiffness = k, damping = d, time_scale = tau_c\<rparr>\<rparr>)"
proof -
  let ?m = "Max (get_default_mass ` set (tree_bodies (model plant)))"
  let ?g = "case gravity_field plant of Some gravity_vector \<Rightarrow> norm3 gravity_vector
            | None \<Rightarrow> 9.81"
  from assms(3) obtain b where b: "b \<in> set (tree_bodies (model plant))" "0 < get_default_mass b"
    by blast
  have "get_default_mass b \<le> ?m" using b(1) by (intro Max_ge) simp_all
  then have m: "0 < ?m" using b(2) by linarith
  have g: "0 < ?g" using assms(4) by (cases "gravity_field plant") simp_all
  have k: "0 < ?m * ?g / penetration_allowance" using m g assms(2) by simp
  have "0 < ?m * ?g / penetration_allowance / ?m" using k m by (rule divide_pos_pos)
  then have w: "0 < sqrt (?m * ?g / penetration_allowance / ?m)"
    by (simp only: real_sqrt_gt_0_iff)
  have nonneg: "\<exists>b \<in> set (tree_bodies (model plant)). 0 \<le> get_default_mass b"
    using b by (intro bexI [of _ b]) simp_all
  have run: "set_penetration_allowance plant penetration_allowance =
      (Inr (), plant\<lparr>penalty_method_contact_parameters :=
         \<lparr>stiffness = ?m * ?g / penetration_allowance,
          damping = 1 / sqrt (?m * ?g / penetration_allowance / ?m) / penetration_allowance,
          time_scale = 1 / sqrt (?m * ?g / penetration_allowance / ?m)\<rparr>\<rparr>)"
    using assms(1) max_default_mass_Max [OF nonneg]
    by (simp add: set_penetration_allowance_def ThrowIfNotFinalized_def Let_def)
  show ?thesis
    unfolding Let_def using m g k w run by blast
qed

theorem set_penetration_allowance_parameters_witness:
  "is_finalized (example_plant 0 True) \<and> (0::real) < 1 / 2 \<and>
   Max (get_default_mass ` set (tree_bodies (model (example_plant 0 True)))) = 2 \<and>
   gravity_field (example_plant 0 True) = Some (0, 0, - 2) \<and>
   norm3 (0, 0, - 2) = 2 \<and>
   set_penetration_allowance (example_plant 0 True) (1 / 2) =
     (Inr (), (example_plant 0 True)\<lparr>penalty_method_contact_parameters :=
                \<lparr>stiffness = 8, damping = 1, time_scale = 1 / 2\<rparr>\<rparr>)"
proof -
  have f: "is_finalized (example_plant 0 True)"
    by (simp add: is_finalized_def example_plant_def)
  have b: "\<exists>b \<in> set (tree_bodies (model (example_plant 0 True))). 0 < get_default_mass b"
    by (simp add: example_plant_def example_bodies_def)
  have m: "Max (get_default_mass ` set (tree_bodies (model (example_plant 0 True)))) = 2"
    by (simp add: example_plant_def example_bodies_def)
  have g: "gravity_field (example_plant 0 True) = Some (0, 0, - 2)"
    by (simp add: example_plant_def)
  have n: "norm3 (0, 0, - 2) = 2"
    by (simp add: norm3_def squaredNorm_def)
  have gv: "\<forall>gravity_vector. gravity_field (example_plant 0 True) = Some gravity_vector \<longrightarrow>
      0 < norm3 gravity_vector"
    using n by (simp add: g)
  have d: "(0::real) < 1 / 2" by simp
  show ?thesis
    using set_penetration_allowance_parameters [OF f d b gv] f m g n
    by (simp add: Let_def)
qed

section \<open>Properties of the lifecycle\<close>




text \<open>
  Claim C9 says that \<open>get_contact_results_output_port\<close> returns the port on every
  finalized plant, continuous or discrete. The source guards the accessor with
  \<^verbatim>\<open>DRAKE_THROW_UNLESS(is_discrete())\<close>: on the finalized continuous plant below it
  throws.
\<close>

theorem contact_results_port_continuous_counterexample:
  "is_finalized (example_plant 0 True) \<and> \<not> is_discrete (example_plant 0 True) \<and>
   get_contact_results_output_port (example_plant 0 True) = Inl (ThrowUnless ''is_discrete()'')"
  by (simp add: get_contact_results_output_port_def ThrowIfNotFinalized_def
      is_finalized_def is_discrete_def example_plant_def)

text \<open>
  Claim C9, amended. On a finalized plant \<open>get_contact_results_output_port\<close> returns the
  ContactResults output port exactly when the plant is discrete; on a finalized
  continuous plant it fails the guard \<^verbatim>\<open>DRAKE_THROW_UNLESS(is_discrete())\<close>.
\<close>

theorem get_contact_results_output_port_discrete_only:
  assumes "is_finalized plant"
  shows "get_contact_results_output_port plant =
           (if is_discrete plant then Inr (contact_results_port plant)
            else Inl (ThrowUnless ''is_discrete()''))"
  using assms by (simp add: get_contact_results_output_port_def ThrowIfNotFinalized_def)

theorem get_contact_results_output_port_discrete_only_witness:
  "is_finalized (example_plant (1 / 1000) True) \<and> is_discrete (example_plant (1 / 1000) True) \<and>
   get_contact_results_output_port (example_plant (1 / 1000) True) = Inr 1"
proof -
  have f: "is_finalized (example_plant (1 / 1000) True)"
    by (simp add: is_finalized_def example_plant_def)
  show ?thesis
    using f get_contact_results_output_port_discrete_only [OF f]
    by (simp add: is_discrete_def example_plant_def)
qed

section \<open>Properties of the penalty method\<close>

lemma cross_vneg: "cross (vneg p) f = vneg (cross p f)"
  by (cases p rule: prod_cases3, cases f rule: prod_cases3) simp

lemma vsub_vneg: "vsub a (vneg b) = vadd a b"
  by (cases a rule: prod_cases3, cases b rule: prod_cases3) simp

lemma vadd_vsub_cancel: "vadd (vsub a b) b = a"
  by (cases a rule: prod_cases3, cases b rule: prod_cases3) simp

lemma vneg_vneg: "vneg (vneg a) = a"
  by (cases a rule: prod_cases3) simp

lemma vadd_vneg: "vadd a (vneg a) = Zero3"
  by (cases a rule: prod_cases3) (simp add: Zero3_def)

lemma SpatialForce_Shift_back:
  "SpatialForce_Shift (SpatialForce_Shift F p) (vneg p) = F"
  by (simp add: SpatialForce_Shift_def cross_vneg vsub_vneg vadd_vsub_cancel)

lemma cross_vneg_right: "cross p (vneg f) = vneg (cross p f)"
  by (cases p rule: prod_cases3, cases f rule: prod_cases3) simp

lemma vsub_vneg_vneg: "vsub (vneg a) (vneg b) = vneg (vsub a b)"
  by (cases a rule: prod_cases3, cases b rule: prod_cases3) simp

lemma SpatialForce_Shift_minus:
  "SpatialForce_Shift (SpatialForce_minus F) p = SpatialForce_minus (SpatialForce_Shift F p)"
  by (simp add: SpatialForce_Shift_def SpatialForce_minus_def cross_vneg_right vsub_vneg_vneg)

lemma squaredNorm_nonneg: "0 \<le> squaredNorm a"
  by (cases a rule: prod_cases3) (simp add: squaredNorm_def)

lemma SpatialForce_plus_minus:
  "SpatialForce_plus F (SpatialForce_minus F) = \<lparr>rotational = Zero3, translational = Zero3\<rparr>"
  by (simp add: SpatialForce_plus_def SpatialForce_minus_def vadd_vneg)

lemma add_at_frame:
  assumes "add_at F i G = Inr F'"
  shows "length F' = length F \<and> (\<forall>j. j \<noteq> i \<longrightarrow> F' ! j = F ! j)"
  using assms by (auto simp: add_at_def split: if_splits)

lemma accumulate_contact_force_frame:
  assumes "accumulate_contact_force (Some F0) a na b nb kin F = Inr R"
    and "a \<noteq> world_index \<longrightarrow> na \<noteq> w" and "b \<noteq> world_index \<longrightarrow> nb \<noteq> w"
  shows "\<exists>F1. R = Some F1 \<and> length F1 = length F0 \<and> F1 ! w = F0 ! w"
proof -
  obtain F1 where F1: "(if a \<noteq> world_index then add_at F0 na (F_AAo_W F kin) else Inr F0) = Inr F1"
    using assms(1) by (auto simp: accumulate_contact_force_def split: sum.splits)
  obtain F2 where F2: "(if b \<noteq> world_index then add_at F1 nb (F_BBo_W F kin) else Inr F1) = Inr F2"
    and R: "R = Some F2"
    using assms(1) F1 by (auto simp: accumulate_contact_force_def split: sum.splits)
  have 1: "length F1 = length F0 \<and> F1 ! w = F0 ! w"
    using F1 assms(2) add_at_frame [of F0 na "F_AAo_W F kin" F1] by (auto split: if_splits)
  have 2: "length F2 = length F1 \<and> F2 ! w = F1 ! w"
    using F2 assms(3) add_at_frame [of F1 nb "F_BBo_W F kin" F2] by (auto split: if_splits)
  show ?thesis using R 1 2 by simp
qed

lemma contact_pair_forces_frame:
  assumes "contact_pair_forces plant ext pc vc pair friction (Some F0) = Inr R"
    and "world_slot_free plant"
  shows "\<exists>F1. R = Some F1 \<and> length F1 = length F0 \<and>
           F1 ! node_index (get_body plant world_index) = F0 ! node_index (get_body plant world_index)"
proof -
  let ?w = "node_index (get_body plant world_index)"
  obtain a b where a: "geometry_id_to_body_index plant (id_A pair) = Some a"
    and b: "geometry_id_to_body_index plant (id_B pair) = Some b"
    using assms(1) by (auto simp: contact_pair_forces_def split: option.splits)
  have na: "a \<noteq> world_index \<longrightarrow> node_index (get_body plant a) \<noteq> ?w"
    using assms(2) a by (auto simp: world_slot_free_def)
  have nb: "b \<noteq> world_index \<longrightarrow> node_index (get_body plant b) \<noteq> ?w"
    using assms(2) b by (auto simp: world_slot_free_def)
  let ?kin = "contact_pair_kinematics ext pc vc (node_index (get_body plant a))
                (node_index (get_body plant b)) pair"
  let ?fn = "fn_AC plant (depth pair) (vn ?kin)"
  show ?thesis
  proof (cases "?fn > 0")
    case False
    then have "R = Some F0"
      using assms(1) a b by (auto simp: contact_pair_forces_def Let_def split: if_splits)
    then show ?thesis by blast
  next
    case True
    then obtain ft where
      "accumulate_contact_force (Some F0) a (node_index (get_body plant a)) b
         (node_index (get_body plant b)) ?kin (F_AC_W ?fn (nhat_BA_W pair) ft) = Inr R"
      using assms(1) a b
      by (auto simp: contact_pair_forces_def Let_def split: if_splits sum.splits)
    then show ?thesis using na nb by (rule accumulate_contact_force_frame)
  qed
qed

lemma contact_forces_loop_frame:
  assumes "contact_forces_loop plant ext pc vc ps (Some F0) = Inr R"
    and "world_slot_free plant"
  shows "\<exists>F1. R = Some F1 \<and> length F1 = length F0 \<and>
           F1 ! node_index (get_body plant world_index) = F0 ! node_index (get_body plant world_index)"
  using assms(1)
proof (induction ps arbitrary: F0)
  case Nil
  then show ?case by auto
next
  case (Cons p ps)
  obtain pair friction where p: "p = (pair, friction)" by (cases p)
  from Cons.prems p obtain R1 where
    R1: "contact_pair_forces plant ext pc vc pair friction (Some F0) = Inr R1"
    and rest: "contact_forces_loop plant ext pc vc ps R1 = Inr R"
    by (auto split: sum.splits)
  from contact_pair_forces_frame [OF R1 assms(2)] obtain F1 where
    F1: "R1 = Some F1" "length F1 = length F0"
      "F1 ! node_index (get_body plant world_index) = F0 ! node_index (get_body plant world_index)"
    by blast
  from Cons.IH [of F1] rest F1(1) obtain F2 where
    "R = Some F2" "length F2 = length F1"
    "F2 ! node_index (get_body plant world_index) = F1 ! node_index (get_body plant world_index)"
    by blast
  then show ?case using F1 by simp
qed

lemma CalcAndAddContactForcesByPenaltyMethod_frame:
  assumes "CalcAndAddContactForcesByPenaltyMethod plant ext pc vc pairs (Some F0) = Inr R"
    and "world_slot_free plant"
  shows "\<exists>F1. R = Some F1 \<and> length F1 = length F0 \<and>
           F1 ! node_index (get_body plant world_index) = F0 ! node_index (get_body plant world_index)"
proof (cases "num_collision_geometries plant = 0")
  case True
  then have "R = Some F0"
    using assms(1) by (simp add: CalcAndAddContactForcesByPenaltyMethod_def)
  then show ?thesis by blast
next
  case False
  then obtain cs where
    "contact_forces_loop plant ext pc vc (zip pairs cs) (Some F0) = Inr R"
    using assms(1) by (auto simp: CalcAndAddContactForcesByPenaltyMethod_def split: sum.splits)
  then show ?thesis using assms(2) by (rule contact_forces_loop_frame)
qed

lemma ft_AC_W_cases:
  assumes "0 \<le> inv_v_stiction_tolerance (stribeck_model plant)"
  shows "\<exists>mu ft. ft_AC_W plant friction fn vt = Inr ft \<and>
           (squaredNorm vt > 1 / 10 ^ 28 \<longrightarrow>
              ComputeFrictionCoefficient (stribeck_model plant) (norm3 vt) friction = Inr mu \<and>
              ft = smul (mu * fn) (sdiv vt (norm3 vt))) \<and>
           (\<not> squaredNorm vt > 1 / 10 ^ 28 \<longrightarrow> ft = Zero3)"
proof (cases "squaredNorm vt > 1 / 10 ^ 28")
  case True
  have "0 \<le> norm3 vt" by (simp add: norm3_def squaredNorm_nonneg)
  then obtain mu where mu: "ComputeFrictionCoefficient (stribeck_model plant) (norm3 vt) friction = Inr mu"
    using ComputeFrictionCoefficient_returns [OF _ assms] by blast
  show ?thesis using True mu by (simp add: ft_AC_W_def Let_def norm3_def)
next
  case False
  then show ?thesis by (simp add: ft_AC_W_def Let_def)
qed

lemma CalcCombinedFrictionCoefficients_length:
  "CalcCombinedFrictionCoefficients plant pairs = Inr combined \<Longrightarrow>
     length combined = length pairs"
proof (induction pairs arbitrary: combined)
  case Nil
  then show ?case by simp
next
  case (Cons pair pairs)
  then show ?case
    by (auto split: option.splits if_splits sum.splits)
qed

lemma CalcCombinedFrictionCoefficients_Cons:
  assumes "CalcCombinedFrictionCoefficients plant (pair # rest) = Inr combined"
  shows "\<exists>ia ib cs.
           geometry_id_to_collision_index plant (id_A pair) = Some ia \<and>
           geometry_id_to_collision_index plant (id_B pair) = Some ib \<and>
           CalcCombinedFrictionCoefficients plant rest = Inr cs \<and>
           combined =
             CalcContactFrictionFromSurfaceProperties (default_coulomb_friction plant ! ia)
               (default_coulomb_friction plant ! ib) # cs"
  using assms by (auto split: option.splits if_splits sum.splits)

lemma CalcCombinedFrictionCoefficients_append:
  assumes "CalcCombinedFrictionCoefficients plant (xs @ ys) = Inr combined"
  shows "\<exists>c1 c2. CalcCombinedFrictionCoefficients plant xs = Inr c1 \<and>
                 CalcCombinedFrictionCoefficients plant ys = Inr c2 \<and>
                 combined = c1 @ c2"
  using assms
proof (induction xs arbitrary: combined)
  case Nil
  then show ?case by simp
next
  case (Cons x xs)
  from Cons.prems have "CalcCombinedFrictionCoefficients plant (x # (xs @ ys)) = Inr combined"
    by simp
  from CalcCombinedFrictionCoefficients_Cons [OF this] obtain ia ib cs where
    ia: "geometry_id_to_collision_index plant (id_A x) = Some ia"
    and ib: "geometry_id_to_collision_index plant (id_B x) = Some ib"
    and cs: "CalcCombinedFrictionCoefficients plant (xs @ ys) = Inr cs"
    and c: "combined =
             CalcContactFrictionFromSurfaceProperties (default_coulomb_friction plant ! ia)
               (default_coulomb_friction plant ! ib) # cs"
    by blast
  have rng: "ia < length (default_coulomb_friction plant) \<and>
             ib < length (default_coulomb_friction plant)"
    using Cons.prems ia ib by (auto split: if_splits)
  from Cons.IH [OF cs] obtain c1 c2 where
    c1: "CalcCombinedFrictionCoefficients plant xs = Inr c1"
    and c2: "CalcCombinedFrictionCoefficients plant ys = Inr c2"
    and app: "cs = c1 @ c2"
    by blast
  have "CalcCombinedFrictionCoefficients plant (x # xs) =
          Inr (CalcContactFrictionFromSurfaceProperties (default_coulomb_friction plant ! ia)
                 (default_coulomb_friction plant ! ib) # c1)"
    using ia ib rng c1 by simp
  then show ?case using c2 c app by simp
qed

lemma contact_forces_loop_append:
  "contact_forces_loop plant ext pc vc (ps @ qs) F =
     (case contact_forces_loop plant ext pc vc ps F of
        Inl e \<Rightarrow> Inl e
      | Inr F1 \<Rightarrow> contact_forces_loop plant ext pc vc qs F1)"
proof (induction ps arbitrary: F)
  case Nil
  then show ?case by simp
next
  case (Cons p ps)
  obtain pair friction where p: "p = (pair, friction)" by (cases p)
  show ?case using Cons.IH by (simp add: p split: sum.splits)
qed

lemma CalcAndAddContactForcesByPenaltyMethod_unfold:
  assumes geoms: "0 < num_collision_geometries plant"
    and comb: "CalcCombinedFrictionCoefficients plant (pre @ pair # rest) = Inr combined"
  shows "CalcAndAddContactForcesByPenaltyMethod plant ext pc vc (pre @ pair # rest) F =
           (case CalcAndAddContactForcesByPenaltyMethod plant ext pc vc pre F of
              Inl e \<Rightarrow> Inl e
            | Inr F1 \<Rightarrow>
                (case contact_pair_forces plant ext pc vc pair (combined ! length pre) F1 of
                   Inl e \<Rightarrow> Inl e
                 | Inr F2 \<Rightarrow> CalcAndAddContactForcesByPenaltyMethod plant ext pc vc rest F2))"
proof -
  from CalcCombinedFrictionCoefficients_append [OF comb] obtain c1 c2 where
    c1: "CalcCombinedFrictionCoefficients plant pre = Inr c1"
    and c2: "CalcCombinedFrictionCoefficients plant (pair # rest) = Inr c2"
    and app: "combined = c1 @ c2"
    by blast
  from CalcCombinedFrictionCoefficients_Cons [OF c2] obtain c cs where
    cs: "CalcCombinedFrictionCoefficients plant rest = Inr cs" and c2': "c2 = c # cs"
    by blast
  have l1: "length c1 = length pre" using c1 by (rule CalcCombinedFrictionCoefficients_length)
  have nth: "combined ! length pre = c" using app c2' l1 by (simp add: nth_append)
  have z: "zip (pre @ pair # rest) combined = zip pre c1 @ (pair, c) # zip rest cs"
    using app c2' l1 by simp
  show ?thesis
    using geoms comb c1 cs
    by (simp add: CalcAndAddContactForcesByPenaltyMethod_def z nth contact_forces_loop_append
        split: sum.splits)
qed

text \<open>
  Claim C2. In the continuous penalty path, \<open>CalcAndAddContactForcesByPenaltyMethod\<close>
  treats every point pair of its list, after the pairs before it and before the pairs
  after it, with the combined friction of the two geometries of the pair. For a pair
  with depth \<open>x \<ge> 0\<close> and approach speed \<open>vn\<close> (the component of \<open>v_WBc - v_WAc\<close> along
  \<open>n\<^sub>B\<^sub>A\<close>, positive when the bodies approach), the normal force magnitude on \<open>A\<close> is
  \<open>fn = k x (1 + d vn)\<close>. When \<open>fn\<close> is not positive the pair leaves the force array as
  it is. When it is positive the friction force on \<open>A\<close> is \<open>\<mu> fn (v\<^sub>t / |v\<^sub>t|)\<close>, with \<open>\<mu>\<close>
  the Stribeck coefficient of \<open>|v\<^sub>t|\<close>, if \<open>|v\<^sub>t|\<^sup>2 > 10\<^sup>-\<^sup>2\<^sup>8\<close>, and zero otherwise; the
  force accumulated is \<open>(0; fn n\<^sub>B\<^sub>A + ft)\<close>. Whatever the point pairs, the slot of the
  world in the array is the same after the call as before.
\<close>

theorem penalty_contact_law:
  assumes geoms: "0 < num_collision_geometries plant"
    and comb: "CalcCombinedFrictionCoefficients plant (pre @ pair # rest) = Inr combined"
    and a: "geometry_id_to_body_index plant (id_A pair) = Some a"
    and b: "geometry_id_to_body_index plant (id_B pair) = Some b"
    and range: "a < num_bodies plant" "b < num_bodies plant"
    and x: "0 \<le> depth pair"
    and tol: "0 \<le> inv_v_stiction_tolerance (stribeck_model plant)"
    and slot: "world_slot_free plant"
  shows
    "let bodyA_node_index = node_index (get_body plant a);
         bodyB_node_index = node_index (get_body plant b);
         kin = contact_pair_kinematics ext pc vc bodyA_node_index bodyB_node_index pair;
         fn = stiffness (penalty_method_contact_parameters plant) * depth pair
              * (1 + damping (penalty_method_contact_parameters plant) * vn kin);
         vt = vsub (v_AcBc_W kin) (smul (vn kin) (nhat_BA_W pair));
         friction = combined ! length pre
     in (\<exists>ia ib.
           geometry_id_to_collision_index plant (id_A pair) = Some ia \<and>
           geometry_id_to_collision_index plant (id_B pair) = Some ib \<and>
           friction =
             CalcContactFrictionFromSurfaceProperties (default_coulomb_friction plant ! ia)
               (default_coulomb_friction plant ! ib)) \<and>
        fn_AC plant (depth pair) (vn kin) = fn \<and>
        (\<not> 0 < fn \<longrightarrow>
           CalcAndAddContactForcesByPenaltyMethod plant ext pc vc (pre @ pair # rest) F =
             (case CalcAndAddContactForcesByPenaltyMethod plant ext pc vc pre F of
                Inl e \<Rightarrow> Inl e
              | Inr F1 \<Rightarrow> CalcAndAddContactForcesByPenaltyMethod plant ext pc vc rest F1)) \<and>
        (0 < fn \<longrightarrow>
           (\<exists>mu ft.
              (squaredNorm vt > 1 / 10 ^ 28 \<longrightarrow>
                 ComputeFrictionCoefficient (stribeck_model plant) (norm3 vt) friction = Inr mu \<and>
                 ft = smul (mu * fn) (sdiv vt (norm3 vt))) \<and>
              (\<not> squaredNorm vt > 1 / 10 ^ 28 \<longrightarrow> ft = Zero3) \<and>
              CalcAndAddContactForcesByPenaltyMethod plant ext pc vc (pre @ pair # rest) F =
                (case CalcAndAddContactForcesByPenaltyMethod plant ext pc vc pre F of
                   Inl e \<Rightarrow> Inl e
                 | Inr F1 \<Rightarrow>
                     (case accumulate_contact_force F1 a bodyA_node_index b bodyB_node_index kin
                             \<lparr>rotational = Zero3,
                              translational = vadd (smul fn (nhat_BA_W pair)) ft\<rparr> of
                        Inl e \<Rightarrow> Inl e
                      | Inr F2 \<Rightarrow>
                          CalcAndAddContactForcesByPenaltyMethod plant ext pc vc rest F2)))) \<and>
        (\<forall>pairs F0 R.
           CalcAndAddContactForcesByPenaltyMethod plant ext pc vc pairs (Some F0) = Inr R \<longrightarrow>
           (\<exists>F1. R = Some F1 \<and> length F1 = length F0 \<and>
                 F1 ! node_index (get_body plant world_index) =
                 F0 ! node_index (get_body plant world_index)))"
proof -
  let ?kin = "contact_pair_kinematics ext pc vc (node_index (get_body plant a))
                (node_index (get_body plant b)) pair"
  let ?fn = "fn_AC plant (depth pair) (vn ?kin)"
  let ?vt = "vt_AcBc_W ?kin (nhat_BA_W pair)"
  let ?fr = "combined ! length pre"
  note unfold = CalcAndAddContactForcesByPenaltyMethod_unfold [OF geoms comb, of ext pc vc F]
  have fric: "\<exists>ia ib.
           geometry_id_to_collision_index plant (id_A pair) = Some ia \<and>
           geometry_id_to_collision_index plant (id_B pair) = Some ib \<and>
           ?fr = CalcContactFrictionFromSurfaceProperties (default_coulomb_friction plant ! ia)
                   (default_coulomb_friction plant ! ib)"
  proof -
    from CalcCombinedFrictionCoefficients_append [OF comb] obtain c1 c2 where
      c1: "CalcCombinedFrictionCoefficients plant pre = Inr c1"
      and c2: "CalcCombinedFrictionCoefficients plant (pair # rest) = Inr c2"
      and app: "combined = c1 @ c2"
      by blast
    from CalcCombinedFrictionCoefficients_Cons [OF c2] obtain ia ib cs where
      i: "geometry_id_to_collision_index plant (id_A pair) = Some ia"
        "geometry_id_to_collision_index plant (id_B pair) = Some ib"
      and c2': "c2 = CalcContactFrictionFromSurfaceProperties (default_coulomb_friction plant ! ia)
                       (default_coulomb_friction plant ! ib) # cs"
      by blast
    have "length c1 = length pre" using c1 by (rule CalcCombinedFrictionCoefficients_length)
    then have "?fr = CalcContactFrictionFromSurfaceProperties (default_coulomb_friction plant ! ia)
                       (default_coulomb_friction plant ! ib)"
      using app c2' by (simp add: nth_append)
    with i show ?thesis by blast
  qed
  have fn: "?fn = stiffness (penalty_method_contact_parameters plant) * depth pair
              * (1 + damping (penalty_method_contact_parameters plant) * vn ?kin)"
    by (simp add: fn_AC_def)
  have lift: "CalcAndAddContactForcesByPenaltyMethod plant ext pc vc (pre @ pair # rest) F =
             (case CalcAndAddContactForcesByPenaltyMethod plant ext pc vc pre F of
                Inl e \<Rightarrow> Inl e
              | Inr F1 \<Rightarrow> CalcAndAddContactForcesByPenaltyMethod plant ext pc vc rest F1)"
    if neg: "\<not> 0 < ?fn"
  proof -
    have "\<And>F1. contact_pair_forces plant ext pc vc pair ?fr F1 = Inr F1"
      using a b range x neg by (simp add: contact_pair_forces_def Let_def)
    then show ?thesis by (simp add: unfold cong: sum.case_cong)
  qed
  have press: "\<exists>mu ft.
              (squaredNorm ?vt > 1 / 10 ^ 28 \<longrightarrow>
                 ComputeFrictionCoefficient (stribeck_model plant) (norm3 ?vt) ?fr = Inr mu \<and>
                 ft = smul (mu * ?fn) (sdiv ?vt (norm3 ?vt))) \<and>
              (\<not> squaredNorm ?vt > 1 / 10 ^ 28 \<longrightarrow> ft = Zero3) \<and>
              CalcAndAddContactForcesByPenaltyMethod plant ext pc vc (pre @ pair # rest) F =
                (case CalcAndAddContactForcesByPenaltyMethod plant ext pc vc pre F of
                   Inl e \<Rightarrow> Inl e
                 | Inr F1 \<Rightarrow>
                     (case accumulate_contact_force F1 a (node_index (get_body plant a)) b
                             (node_index (get_body plant b)) ?kin
                             \<lparr>rotational = Zero3,
                              translational = vadd (smul ?fn (nhat_BA_W pair)) ft\<rparr> of
                        Inl e \<Rightarrow> Inl e
                      | Inr F2 \<Rightarrow>
                          CalcAndAddContactForcesByPenaltyMethod plant ext pc vc rest F2))"
    if pos: "0 < ?fn"
  proof -
    from ft_AC_W_cases [OF tol, of ?fr ?fn ?vt] obtain mu ft where
      ft: "ft_AC_W plant ?fr ?fn ?vt = Inr ft"
      and c1: "squaredNorm ?vt > 1 / 10 ^ 28 \<longrightarrow>
              ComputeFrictionCoefficient (stribeck_model plant) (norm3 ?vt) ?fr = Inr mu \<and>
              ft = smul (mu * ?fn) (sdiv ?vt (norm3 ?vt))"
      and c2: "\<not> squaredNorm ?vt > 1 / 10 ^ 28 \<longrightarrow> ft = Zero3"
      by blast
    have "\<And>F1. contact_pair_forces plant ext pc vc pair ?fr F1 =
            accumulate_contact_force F1 a (node_index (get_body plant a)) b
              (node_index (get_body plant b)) ?kin
              \<lparr>rotational = Zero3, translational = vadd (smul ?fn (nhat_BA_W pair)) ft\<rparr>"
      using a b range x pos ft by (simp add: contact_pair_forces_def Let_def F_AC_W_def)
    then have "CalcAndAddContactForcesByPenaltyMethod plant ext pc vc (pre @ pair # rest) F =
                (case CalcAndAddContactForcesByPenaltyMethod plant ext pc vc pre F of
                   Inl e \<Rightarrow> Inl e
                 | Inr F1 \<Rightarrow>
                     (case accumulate_contact_force F1 a (node_index (get_body plant a)) b
                             (node_index (get_body plant b)) ?kin
                             \<lparr>rotational = Zero3,
                              translational = vadd (smul ?fn (nhat_BA_W pair)) ft\<rparr> of
                        Inl e \<Rightarrow> Inl e
                      | Inr F2 \<Rightarrow>
                          CalcAndAddContactForcesByPenaltyMethod plant ext pc vc rest F2))"
      by (simp add: unfold cong: sum.case_cong)
    with c1 c2 show ?thesis by blast
  qed
  have world: "\<forall>pairs F0 R.
           CalcAndAddContactForcesByPenaltyMethod plant ext pc vc pairs (Some F0) = Inr R \<longrightarrow>
           (\<exists>F1. R = Some F1 \<and> length F1 = length F0 \<and>
                 F1 ! node_index (get_body plant world_index) =
                 F0 ! node_index (get_body plant world_index))"
    using CalcAndAddContactForcesByPenaltyMethod_frame [OF _ slot] by blast
  show ?thesis
    unfolding Let_def fn [symmetric] vt_AcBc_W_def [symmetric]
    using fric lift press world by blast
qed

lemma example_world_slot_free: "world_slot_free (example_contact_plant dt)"
  by (auto simp: world_slot_free_def example_contact_plant_def example_plant_def
      example_bodies_def get_body_def world_index_def split: if_splits)

lemma example_kin:
  "contact_pair_kinematics example_ext example_pc (example_vc v) (Suc 0) 0 (example_pair a b) =
     \<lparr>p_CoAo_W = (0, 0, 1), p_CoBo_W = (0, 0, 0), v_AcBc_W = vneg v,
      vn = dot (vneg v) (0, 0, 1)\<rparr>"
  by (cases v rule: prod_cases3)
     (simp add: contact_pair_kinematics_def example_ext_def example_pc_def example_vc_def
      example_pair_def rigid_shift_def zero_spatial_def Zero3_def approach_speed_def Let_def)

lemma example_kin_ball_box:
  "contact_pair_kinematics example_ext example_pc (example_vc v) (Suc 0) 2 (example_pair a b) =
     \<lparr>p_CoAo_W = (0, 0, 1), p_CoBo_W = (0, 0, - 1), v_AcBc_W = vneg v,
      vn = dot (vneg v) (0, 0, 1)\<rparr>"
  by (cases v rule: prod_cases3)
     (simp add: contact_pair_kinematics_def example_ext_def example_pc_def example_vc_def
      example_pair_def rigid_shift_def zero_spatial_def Zero3_def approach_speed_def Let_def)

lemma example_num_collision_geometries: "num_collision_geometries (example_contact_plant dt) = 3"
  by (simp add: num_collision_geometries_def example_contact_plant_def example_plant_def)

lemma example_combined:
  "CalcCombinedFrictionCoefficients (example_contact_plant dt) [example_pair 1 0] =
     Inr [\<lparr>static_friction = 1, dynamic_friction = 1 / 2\<rparr>]"
  by (simp add: example_contact_plant_def example_plant_def example_pair_def
      CalcContactFrictionFromSurfaceProperties_def combine_coefficient_def)

lemma example_combined_two:
  "CalcCombinedFrictionCoefficients (example_contact_plant dt)
     [example_pair 1 2, example_pair 1 0] =
     Inr [\<lparr>static_friction = 1, dynamic_friction = 1 / 2\<rparr>,
          \<lparr>static_friction = 1, dynamic_friction = 1 / 2\<rparr>]"
  by (simp add: example_contact_plant_def example_plant_def example_pair_def
      CalcContactFrictionFromSurfaceProperties_def combine_coefficient_def)

lemma example_stribeck_coefficient:
  "ComputeFrictionCoefficient (StribeckModel_set_stiction_tolerance 1) 2
     \<lparr>static_friction = 1, dynamic_friction = 1 / 2\<rparr> = Inr (3 / 4)"
  by (simp add: ComputeFrictionCoefficient_def StribeckModel_set_stiction_tolerance_def
      step5_def Let_def)

lemma example_no_pairs:
  "CalcAndAddContactForcesByPenaltyMethod (example_contact_plant dt) ext pc vc [] F = Inr F"
  by (simp add: CalcAndAddContactForcesByPenaltyMethod_def)

lemma example_ball_on_box:
  "CalcAndAddContactForcesByPenaltyMethod (example_contact_plant dt) example_ext example_pc
     (example_vc (- 2, 0, - 1)) [example_pair (Suc 0) 2]
     (Some [zero_spatial, zero_spatial, zero_spatial]) =
   Inr (Some [zero_spatial,
              \<lparr>rotational = (0, - 6, 0), translational = (6, 0, 8)\<rparr>,
              \<lparr>rotational = (0, - 6, 0), translational = (- 6, 0, - 8)\<rparr>])"
proof -
  let ?P = "example_contact_plant dt"
  have c: "CalcCombinedFrictionCoefficients ?P [example_pair (Suc 0) 2] =
             Inr [\<lparr>static_friction = 1, dynamic_friction = 1 / 2\<rparr>]"
    by (simp add: example_contact_plant_def example_plant_def example_pair_def
        CalcContactFrictionFromSurfaceProperties_def combine_coefficient_def)
  have ids: "geometry_id_to_body_index ?P (id_A (example_pair (Suc 0) 2)) = Some (Suc 0)"
    "geometry_id_to_body_index ?P (id_B (example_pair (Suc 0) 2)) = Some 2"
    "num_bodies ?P = 3"
    "node_index (get_body ?P (Suc 0)) = Suc 0" "node_index (get_body ?P 2) = 2"
    "depth (example_pair (Suc 0) 2) = 1 / 2" "nhat_BA_W (example_pair (Suc 0) 2) = (0, 0, 1)"
    "stiffness (penalty_method_contact_parameters ?P) = 8"
    "damping (penalty_method_contact_parameters ?P) = 1"
    "stribeck_model ?P = StribeckModel_set_stiction_tolerance 1"
    by (simp_all add: example_contact_plant_def example_plant_def example_pair_def
        num_bodies_def get_body_def example_bodies_def)
  have p: "contact_pair_forces ?P example_ext example_pc (example_vc (- 2, 0, - 1))
      (example_pair (Suc 0) 2) \<lparr>static_friction = 1, dynamic_friction = 1 / 2\<rparr>
      (Some [zero_spatial, zero_spatial, zero_spatial]) =
     Inr (Some [zero_spatial,
                \<lparr>rotational = (0, - 6, 0), translational = (6, 0, 8)\<rparr>,
                \<lparr>rotational = (0, - 6, 0), translational = (- 6, 0, - 8)\<rparr>])"
    by (simp add: contact_pair_forces_def ids example_kin_ball_box fn_AC_def vt_AcBc_W_def
        ft_AC_W_def squaredNorm_def example_stribeck_coefficient F_AC_W_def
        accumulate_contact_force_def world_index_def add_at_def F_AAo_W_def F_BBo_W_def
        SpatialForce_Shift_def SpatialForce_minus_def SpatialForce_plus_def zero_spatial_def
        Zero3_def Let_def)
  show ?thesis
    using p
    by (simp add: CalcAndAddContactForcesByPenaltyMethod_def example_num_collision_geometries c
        del: CalcCombinedFrictionCoefficients.simps)
qed

theorem penalty_contact_law_witness:
  "0 < num_collision_geometries (example_contact_plant 0) \<and>
   CalcCombinedFrictionCoefficients (example_contact_plant 0)
       ([example_pair 1 2] @ example_pair 1 0 # []) =
     Inr [\<lparr>static_friction = 1, dynamic_friction = 1 / 2\<rparr>,
          \<lparr>static_friction = 1, dynamic_friction = 1 / 2\<rparr>] \<and>
   geometry_id_to_body_index (example_contact_plant 0) (id_A (example_pair 1 0)) = Some 1 \<and>
   geometry_id_to_body_index (example_contact_plant 0) (id_B (example_pair 1 0)) = Some 0 \<and>
   1 < num_bodies (example_contact_plant 0) \<and> 0 < num_bodies (example_contact_plant 0) \<and>
   0 \<le> depth (example_pair 1 0) \<and>
   0 \<le> inv_v_stiction_tolerance (stribeck_model (example_contact_plant 0)) \<and>
   world_slot_free (example_contact_plant 0) \<and>
   CalcAndAddContactForcesByPenaltyMethod (example_contact_plant 0) example_ext example_pc
       (example_vc (- 2, 0, - 1)) ([example_pair 1 2] @ example_pair 1 0 # [])
       (Some [zero_spatial, zero_spatial, zero_spatial]) =
     Inr (Some [zero_spatial,
                \<lparr>rotational = (0, - 12, 0), translational = (12, 0, 16)\<rparr>,
                \<lparr>rotational = (0, - 6, 0), translational = (- 6, 0, - 8)\<rparr>]) \<and>
   CalcAndAddContactForcesByPenaltyMethod (example_contact_plant 0) example_ext example_pc
       (example_vc (0, 0, 2)) ([] @ example_pair 1 0 # [])
       (Some [zero_spatial, zero_spatial, zero_spatial]) =
     Inr (Some [zero_spatial, zero_spatial, zero_spatial])"
proof -
  let ?P = "example_contact_plant 0"
  let ?fr = "\<lparr>static_friction = 1, dynamic_friction = 1 / 2\<rparr>"
  let ?F = "Some [zero_spatial, zero_spatial, zero_spatial]"
  have geoms: "0 < num_collision_geometries ?P"
    by (simp add: example_num_collision_geometries)
  have comb2: "CalcCombinedFrictionCoefficients ?P ([example_pair 1 2] @ example_pair 1 0 # []) =
                 Inr [?fr, ?fr]"
    using example_combined_two [of 0] by simp
  have comb1: "CalcCombinedFrictionCoefficients ?P ([] @ example_pair 1 0 # []) = Inr [?fr]"
    using example_combined [of 0] by simp
  have a: "geometry_id_to_body_index ?P (id_A (example_pair 1 0)) = Some 1"
    and b: "geometry_id_to_body_index ?P (id_B (example_pair 1 0)) = Some 0"
    by (simp_all add: example_contact_plant_def example_plant_def example_pair_def)
  have r: "1 < num_bodies ?P" "0 < num_bodies ?P"
    by (simp_all add: num_bodies_def example_contact_plant_def example_plant_def
        example_bodies_def)
  have x: "0 \<le> depth (example_pair 1 0)" by (simp add: example_pair_def)
  have tol: "0 \<le> inv_v_stiction_tolerance (stribeck_model ?P)"
    by (simp add: example_contact_plant_def example_plant_def
        StribeckModel_set_stiction_tolerance_def)
  have slot: "world_slot_free ?P" by (rule example_world_slot_free)
  have nodes: "node_index (get_body ?P 1) = 1" "node_index (get_body ?P 0) = 0"
    by (simp_all add: get_body_def example_contact_plant_def example_plant_def
        example_bodies_def)
  have params: "stiffness (penalty_method_contact_parameters ?P) = 8"
    "damping (penalty_method_contact_parameters ?P) = 1"
    "stribeck_model ?P = StribeckModel_set_stiction_tolerance 1"
    by (simp_all add: example_contact_plant_def example_plant_def)
  have pr: "depth (example_pair 1 0) = 1 / 2" "nhat_BA_W (example_pair 1 0) = (0, 0, 1)"
    by (simp_all add: example_pair_def)
  have pre_run: "CalcAndAddContactForcesByPenaltyMethod ?P example_ext example_pc
      (example_vc (- 2, 0, - 1)) [example_pair 1 2] ?F =
     Inr (Some [zero_spatial,
                \<lparr>rotational = (0, - 6, 0), translational = (6, 0, 8)\<rparr>,
                \<lparr>rotational = (0, - 6, 0), translational = (- 6, 0, - 8)\<rparr>])"
    using example_ball_on_box [of 0] by simp
  note T2 = penalty_contact_law [OF geoms comb2 a b r x tol slot,
      unfolded Let_def nodes params pr,
      of example_ext example_pc "example_vc (- 2, 0, - 1)" ?F, unfolded pre_run]
  note T1 = penalty_contact_law [OF geoms comb1 a b r x tol slot,
      unfolded Let_def nodes params pr,
      of example_ext example_pc "example_vc (0, 0, 2)" ?F]
  have slide: "CalcAndAddContactForcesByPenaltyMethod ?P example_ext example_pc
      (example_vc (- 2, 0, - 1)) ([example_pair 1 2] @ example_pair 1 0 # []) ?F =
     Inr (Some [zero_spatial,
                \<lparr>rotational = (0, - 12, 0), translational = (12, 0, 16)\<rparr>,
                \<lparr>rotational = (0, - 6, 0), translational = (- 6, 0, - 8)\<rparr>])"
    using T2
    by (auto simp: example_kin squaredNorm_def norm3_def example_stribeck_coefficient
        example_ball_on_box example_no_pairs accumulate_contact_force_def world_index_def
        add_at_def F_AAo_W_def SpatialForce_Shift_def SpatialForce_plus_def zero_spatial_def
        Zero3_def
        simp del: CalcAndAddContactForcesByPenaltyMethod_def)
  have lift: "CalcAndAddContactForcesByPenaltyMethod ?P example_ext example_pc
      (example_vc (0, 0, 2)) ([] @ example_pair 1 0 # []) ?F = Inr ?F"
    using T1 by (simp add: example_kin example_no_pairs)
  show ?thesis using geoms comb2 a b r x tol slot slide lift by simp
qed

text \<open>
  Claim C6. For a contact of the continuous penalty path between two bodies neither of
  which is the world, with a positive normal force, the force accumulated on \<open>A\<close> is
  \<open>F_AC_W\<close> shifted to \<open>Ao\<close> and the one accumulated on \<open>B\<close> is the negated \<open>F_AC_W\<close>
  shifted to \<open>Bo\<close>. Shifted back to the common contact point \<open>C\<close> they are \<open>F_AC_W\<close>
  and \<open>- F_AC_W\<close>: equal and opposite, with sum zero.
\<close>

theorem contact_forces_equal_and_opposite:
  assumes a: "geometry_id_to_body_index plant (id_A pair) = Some a"
    and b: "geometry_id_to_body_index plant (id_B pair) = Some b"
    and not_world: "a \<noteq> world_index" "b \<noteq> world_index"
    and range: "a < num_bodies plant" "b < num_bodies plant"
    and x: "0 \<le> depth pair"
    and tol: "0 \<le> inv_v_stiction_tolerance (stribeck_model plant)"
  shows
    "let bodyA_node_index = node_index (get_body plant a);
         bodyB_node_index = node_index (get_body plant b);
         kin = contact_pair_kinematics ext pc vc bodyA_node_index bodyB_node_index pair;
         fn = fn_AC plant (depth pair) (vn kin)
     in 0 < fn \<longrightarrow>
        (\<exists>ft. ft_AC_W plant friction fn (vt_AcBc_W kin (nhat_BA_W pair)) = Inr ft \<and>
           (let F = F_AC_W fn (nhat_BA_W pair) ft;
                FA = SpatialForce_Shift F (p_CoAo_W kin);
                FB = SpatialForce_minus (SpatialForce_Shift F (p_CoBo_W kin))
            in contact_pair_forces plant ext pc vc pair friction (Some F0) =
                 (case add_at F0 bodyA_node_index FA of
                    Inl e \<Rightarrow> Inl e
                  | Inr F1 \<Rightarrow>
                      (case add_at F1 bodyB_node_index FB of
                         Inl e \<Rightarrow> Inl e
                       | Inr F2 \<Rightarrow> Inr (Some F2))) \<and>
               SpatialForce_Shift FA (vneg (p_CoAo_W kin)) = F \<and>
               SpatialForce_Shift FB (vneg (p_CoBo_W kin)) = SpatialForce_minus F \<and>
               SpatialForce_plus (SpatialForce_Shift FA (vneg (p_CoAo_W kin)))
                   (SpatialForce_Shift FB (vneg (p_CoBo_W kin))) =
                 \<lparr>rotational = Zero3, translational = Zero3\<rparr>))"
proof -
  let ?kin = "contact_pair_kinematics ext pc vc (node_index (get_body plant a))
                (node_index (get_body plant b)) pair"
  let ?fn = "fn_AC plant (depth pair) (vn ?kin)"
  have main: "\<exists>ft. ft_AC_W plant friction ?fn (vt_AcBc_W ?kin (nhat_BA_W pair)) = Inr ft \<and>
      contact_pair_forces plant ext pc vc pair friction (Some F0) =
        (case add_at F0 (node_index (get_body plant a))
                (SpatialForce_Shift (F_AC_W ?fn (nhat_BA_W pair) ft) (p_CoAo_W ?kin)) of
           Inl e \<Rightarrow> Inl e
         | Inr F1 \<Rightarrow>
             (case add_at F1 (node_index (get_body plant b))
                     (SpatialForce_minus
                        (SpatialForce_Shift (F_AC_W ?fn (nhat_BA_W pair) ft) (p_CoBo_W ?kin))) of
                Inl e \<Rightarrow> Inl e
              | Inr F2 \<Rightarrow> Inr (Some F2)))"
    if pos: "0 < ?fn"
  proof -
    from ft_AC_W_cases [OF tol, of friction ?fn "vt_AcBc_W ?kin (nhat_BA_W pair)"]
    obtain ft where ft: "ft_AC_W plant friction ?fn (vt_AcBc_W ?kin (nhat_BA_W pair)) = Inr ft"
      by blast
    have "contact_pair_forces plant ext pc vc pair friction (Some F0) =
        (case add_at F0 (node_index (get_body plant a))
                (SpatialForce_Shift (F_AC_W ?fn (nhat_BA_W pair) ft) (p_CoAo_W ?kin)) of
           Inl e \<Rightarrow> Inl e
         | Inr F1 \<Rightarrow>
             (case add_at F1 (node_index (get_body plant b))
                     (SpatialForce_minus
                        (SpatialForce_Shift (F_AC_W ?fn (nhat_BA_W pair) ft) (p_CoBo_W ?kin))) of
                Inl e \<Rightarrow> Inl e
              | Inr F2 \<Rightarrow> Inr (Some F2)))"
      using a b not_world range x pos ft
      by (simp add: contact_pair_forces_def Let_def accumulate_contact_force_def
          F_AAo_W_def F_BBo_W_def cong: sum.case_cong)
    with ft show ?thesis by blast
  qed
  have back_B: "\<And>F p. SpatialForce_Shift (SpatialForce_minus (SpatialForce_Shift F p)) (vneg p)
                  = SpatialForce_minus F"
    by (simp add: SpatialForce_Shift_minus SpatialForce_Shift_back)
  show ?thesis
    unfolding Let_def
    using main by (auto simp: SpatialForce_Shift_back back_B SpatialForce_plus_minus)
qed

theorem contact_forces_equal_and_opposite_witness:
  "geometry_id_to_body_index (example_contact_plant 0) (id_A (example_pair 1 2)) = Some 1 \<and>
   geometry_id_to_body_index (example_contact_plant 0) (id_B (example_pair 1 2)) = Some 2 \<and>
   (1::nat) \<noteq> world_index \<and> (2::nat) \<noteq> world_index \<and>
   1 < num_bodies (example_contact_plant 0) \<and> 2 < num_bodies (example_contact_plant 0) \<and>
   0 \<le> depth (example_pair 1 2) \<and>
   0 \<le> inv_v_stiction_tolerance (stribeck_model (example_contact_plant 0)) \<and>
   contact_pair_forces (example_contact_plant 0) example_ext example_pc
       (example_vc (- 2, 0, - 1)) (example_pair 1 2)
       \<lparr>static_friction = 1, dynamic_friction = 1 / 2\<rparr>
       (Some [zero_spatial, zero_spatial, zero_spatial]) =
     Inr (Some [zero_spatial,
                \<lparr>rotational = (0, - 6, 0), translational = (6, 0, 8)\<rparr>,
                \<lparr>rotational = (0, - 6, 0), translational = (- 6, 0, - 8)\<rparr>]) \<and>
   SpatialForce_Shift \<lparr>rotational = (0, - 6, 0), translational = (6, 0, 8)\<rparr> (0, 0, - 1) =
     \<lparr>rotational = (0, 0, 0), translational = (6, 0, 8)\<rparr> \<and>
   SpatialForce_Shift \<lparr>rotational = (0, - 6, 0), translational = (- 6, 0, - 8)\<rparr> (0, 0, 1) =
     \<lparr>rotational = (0, 0, 0), translational = (- 6, 0, - 8)\<rparr>"
proof -
  let ?P = "example_contact_plant 0"
  let ?fr = "\<lparr>static_friction = 1, dynamic_friction = 1 / 2\<rparr>"
  let ?F = "[zero_spatial, zero_spatial, zero_spatial]"
  have a: "geometry_id_to_body_index ?P (id_A (example_pair 1 2)) = Some 1"
    and b: "geometry_id_to_body_index ?P (id_B (example_pair 1 2)) = Some 2"
    by (simp_all add: example_contact_plant_def example_plant_def example_pair_def)
  have nw: "(1::nat) \<noteq> world_index" "(2::nat) \<noteq> world_index"
    by (simp_all add: world_index_def)
  have r: "1 < num_bodies ?P" "2 < num_bodies ?P"
    by (simp_all add: num_bodies_def example_contact_plant_def example_plant_def
        example_bodies_def)
  have x: "0 \<le> depth (example_pair 1 2)" by (simp add: example_pair_def)
  have tol: "0 \<le> inv_v_stiction_tolerance (stribeck_model ?P)"
    by (simp add: example_contact_plant_def example_plant_def
        StribeckModel_set_stiction_tolerance_def)
  have nodes: "node_index (get_body ?P 1) = 1" "node_index (get_body ?P 2) = 2"
    by (simp_all add: get_body_def example_contact_plant_def example_plant_def
        example_bodies_def)
  have params: "stiffness (penalty_method_contact_parameters ?P) = 8"
    "damping (penalty_method_contact_parameters ?P) = 1"
    "stribeck_model ?P = StribeckModel_set_stiction_tolerance 1"
    by (simp_all add: example_contact_plant_def example_plant_def)
  have pr: "depth (example_pair 1 2) = 1 / 2" "nhat_BA_W (example_pair 1 2) = (0, 0, 1)"
    by (simp_all add: example_pair_def)
  have mu: "ComputeFrictionCoefficient (StribeckModel_set_stiction_tolerance 1) 2 ?fr = Inr (3 / 4)"
    by (simp add: ComputeFrictionCoefficient_def StribeckModel_set_stiction_tolerance_def
        step5_def Let_def)
  have ft: "ft_AC_W ?P ?fr 8 (2, 0, 0) = Inr (6, 0, 0)"
    by (simp add: ft_AC_W_def Let_def squaredNorm_def params mu)
  note T = contact_forces_equal_and_opposite [OF a b nw r x tol, unfolded Let_def nodes pr,
      of example_ext example_pc "example_vc (- 2, 0, - 1)" ?fr ?F]
  have forces: "contact_pair_forces ?P example_ext example_pc (example_vc (- 2, 0, - 1))
      (example_pair 1 2) ?fr (Some ?F) =
     Inr (Some [zero_spatial,
                \<lparr>rotational = (0, - 6, 0), translational = (6, 0, 8)\<rparr>,
                \<lparr>rotational = (0, - 6, 0), translational = (- 6, 0, - 8)\<rparr>])"
    using T
    by (auto simp: example_kin_ball_box fn_AC_def params vt_AcBc_W_def ft F_AC_W_def
        add_at_def SpatialForce_Shift_def SpatialForce_minus_def SpatialForce_plus_def
        zero_spatial_def Zero3_def)
  show ?thesis using a b nw r x tol forces
    by (simp add: SpatialForce_Shift_def)
qed

section \<open>Properties of the discrete update\<close>

lemma SetUpDiscreteProblem_fields:
  assumes "SetUpDiscreteProblem plant ext context0 = Inr step"
  shows "\<exists>forces1 point_pairs0 combined.
           AddJointActuationForces plant ext context0
             (CalcForceElementsContribution ext context0 (EvalPositionKinematics ext context0)
                (EvalVelocityKinematics ext context0)) = Inr forces1 \<and>
           CalcPointPairPenetrations plant context0 = Inr point_pairs0 \<and>
           CalcCombinedFrictionCoefficients plant point_pairs0 = Inr combined \<and>
           step_point_pairs0 step = point_pairs0 \<and>
           step_q0 step = take (num_positions plant) (discrete_state context0 ! 0) \<and>
           step_v0 step = drop (length (discrete_state context0 ! 0) - num_velocities plant)
                            (discrete_state context0 ! 0) \<and>
           pd_M (step_problem step) = CalcMassMatrixViaInverseDynamics ext context0 \<and>
           pd_p_star (step_problem step) =
             vec_sub (mat_vec (CalcMassMatrixViaInverseDynamics ext context0) (step_v0 step))
               (vec_scale (time_step plant)
                  (snd (snd (CalcInverseDynamics ext context0 (EvalPositionKinematics ext context0)
                     (EvalVelocityKinematics ext context0) (replicate (num_velocities plant) 0)
                     (body_forces (AddJointDampingForces plant ext context0 forces1))
                     (generalized_forces (AddJointDampingForces plant ext context0 forces1)))))) \<and>
           pd_mu (step_problem step) = friction_vector combined \<and>
           pd_phi0 (step_problem step) = map depth point_pairs0"
  using assms
  by (auto simp: SetUpDiscreteProblem_def Let_def split: if_splits sum.splits prod.splits)


lemma upt_0_1: "[0..<1] = [0]" and upt_0_2: "[0..<2] = [0, 1]"
  by (simp_all add: upt_rec)

lemma example_actuation:
  "AddJointActuationForces (example_contact_plant dt) example_ext example_context
     \<lparr>body_forces = F, generalized_forces = [- 4, - 2]\<rparr> =
   Inr \<lparr>body_forces = F, generalized_forces = [- 1, - 2]\<rparr>"
  by (simp add: AddJointActuationForces_def AssembleActuationInput_def num_actuators_def
      num_model_instances_def num_actuated_dofs_def example_contact_plant_def example_plant_def
      example_context_def example_ext_def upt_0_1 upt_0_2 Let_def)

lemma example_damping:
  "AddJointDampingForces (example_contact_plant dt) example_ext example_context forces = forces"
proof -
  have "\<And>js. fold (\<lambda>joint_index f. Joint_AddInDamping example_ext joint_index example_context f)
          js forces = forces"
    subgoal for js by (induction js) (simp_all add: example_ext_def)
    done
  then show ?thesis by (simp add: AddJointDampingForces_def)
qed

lemma example_Jn:
  "CalcNormalSeparationVelocitiesJacobian (example_contact_plant dt) example_ext context
     [example_pair 1 0] = Inr [[1, 0]]"
  by (simp add: example_contact_plant_def example_plant_def example_pair_def example_ext_def
      num_bodies_def example_bodies_def transpose_times_def jacobian_sub_def Let_def)

lemma example_Jt:
  "CalcTangentVelocitiesJacobian (example_contact_plant dt) example_ext context
     [example_pair 1 0] = Inr ([[0, 0], [0, 0]], [((1, 0, 0), (0, 1, 0), (0, 0, 1))])"
  by (simp add: example_contact_plant_def example_plant_def example_pair_def example_ext_def
      num_bodies_def example_bodies_def transpose_times_def jacobian_sub_def Let_def)

lemma example_SetUpDiscreteProblem:
  "SetUpDiscreteProblem (example_contact_plant (1 / 2)) example_ext example_context =
     Inr example_step"
proof -
  have ctx: "discrete_state example_context = [[1, - 1, - 1, 0]]"
    "continuous_state_vector example_context = []"
    "query_point_pairs example_context = [example_pair 1 0]"
    "depth (example_pair 1 0) = 1 / 2"
    by (simp_all add: example_context_def example_pair_def)
  have pl: "time_step (example_contact_plant (1 / 2)) = 1 / 2"
    "num_positions (example_contact_plant (1 / 2)) = 2"
    "num_velocities (example_contact_plant (1 / 2)) = 2"
    "geometry_query_port (example_contact_plant (1 / 2)) = Some 0"
    "stiffness (penalty_method_contact_parameters (example_contact_plant (1 / 2))) = 8"
    "damping (penalty_method_contact_parameters (example_contact_plant (1 / 2))) = 1"
    by (simp_all add: example_contact_plant_def example_plant_def num_positions_def
        num_velocities_def)
  have ext: "CalcMassMatrixViaInverseDynamics example_ext example_context = [[2, 0], [0, 1]]"
    "\<And>pc vc. CalcForceElementsContribution example_ext example_context pc vc =
       \<lparr>body_forces = [zero_spatial, zero_spatial, zero_spatial],
        generalized_forces = [- 4, - 2]\<rparr>"
    "\<And>pc vc vdot F tau. CalcInverseDynamics example_ext example_context pc vc vdot F tau =
       ([], F, map uminus tau)"
    by (simp_all add: example_ext_def)
  show ?thesis
    by (simp add: SetUpDiscreteProblem_def ctx pl ext example_actuation example_damping
        CalcPointPairPenetrations_def example_num_collision_geometries example_combined
        example_Jn example_Jt friction_vector_def vec_sub_def vec_scale_def mat_vec_def
        list_dot_def example_step_def Let_def
        del: One_nat_def CalcNormalSeparationVelocitiesJacobian.simps
          CalcTangentVelocitiesJacobian.simps CalcCombinedFrictionCoefficients.simps)
qed




text \<open>
  Claim C7. In the discrete update the friction value handed to the solver for each
  point pair is the static coefficient of the combined friction of the pair; the dynamic
  coefficient of the combined friction has no influence on it: combined frictions that
  agree in their static coefficients give the same vector.
\<close>

theorem discrete_friction_is_static:
  assumes prep: "SetUpDiscreteProblem plant ext context0 = Inr step"
  shows "\<exists>combined.
           CalcCombinedFrictionCoefficients plant (step_point_pairs0 step) = Inr combined \<and>
           length (pd_mu (step_problem step)) = length (step_point_pairs0 step) \<and>
           (\<forall>i < length (step_point_pairs0 step).
              pd_mu (step_problem step) ! i = static_friction (combined ! i)) \<and>
           (\<forall>combined'.
              map static_friction combined' = map static_friction combined \<longrightarrow>
              friction_vector combined' = pd_mu (step_problem step))"
proof -
  from SetUpDiscreteProblem_fields [OF prep] obtain combined where
    c: "CalcCombinedFrictionCoefficients plant (step_point_pairs0 step) = Inr combined"
    and mu: "pd_mu (step_problem step) = friction_vector combined"
    by blast
  have len: "length combined = length (step_point_pairs0 step)"
    using c by (rule CalcCombinedFrictionCoefficients_length)
  show ?thesis
    using c mu len by (auto simp: friction_vector_def)
qed

theorem discrete_friction_is_static_witness:
  "SetUpDiscreteProblem (example_contact_plant (1 / 2)) example_ext example_context =
     Inr example_step \<and>
   CalcCombinedFrictionCoefficients (example_contact_plant (1 / 2))
       (step_point_pairs0 example_step) =
     Inr [\<lparr>static_friction = 1, dynamic_friction = 1 / 2\<rparr>] \<and>
   pd_mu (step_problem example_step) = [1] \<and>
   friction_vector [\<lparr>static_friction = 1, dynamic_friction = 0\<rparr>] =
     pd_mu (step_problem example_step)"
proof -
  have c: "CalcCombinedFrictionCoefficients (example_contact_plant (1 / 2))
       (step_point_pairs0 example_step) =
     Inr [\<lparr>static_friction = 1, dynamic_friction = 1 / 2\<rparr>]"
    using example_combined by (simp add: example_step_def del: One_nat_def
        CalcCombinedFrictionCoefficients.simps)
  from discrete_friction_is_static [OF example_SetUpDiscreteProblem] c
  have "\<forall>combined'. map static_friction combined' = [1] \<longrightarrow>
          friction_vector combined' = pd_mu (step_problem example_step)"
    by auto
  then have "friction_vector [\<lparr>static_friction = 1, dynamic_friction = 0\<rparr>] =
     pd_mu (step_problem example_step)"
    by simp
  then show ?thesis
    using example_SetUpDiscreteProblem c by (simp add: example_step_def)
qed

section \<open>Properties of the contact Jacobians\<close>

lemma CalcNormalSeparationVelocitiesJacobian_rows:
  assumes "CalcNormalSeparationVelocitiesJacobian plant ext context pairs = Inr Jn"
  shows "length Jn = length pairs \<and>
         (\<forall>i < length pairs.
            \<exists>a b. geometry_id_to_body_index plant (id_A (pairs ! i)) = Some a \<and>
                  geometry_id_to_body_index plant (id_B (pairs ! i)) = Some b \<and>
                  Jn ! i =
                    transpose_times (nhat_BA_W (pairs ! i))
                      (jacobian_sub
                         (CalcPointsGeometricJacobianExpressedInWorld ext context a
                            (p_WCa (pairs ! i)))
                         (CalcPointsGeometricJacobianExpressedInWorld ext context b
                            (p_WCb (pairs ! i)))))"
  using assms
proof (induction pairs arbitrary: Jn)
  case Nil
  then show ?case by simp
next
  case (Cons pair pairs)
  from Cons.prems obtain a b rows where
    a: "geometry_id_to_body_index plant (id_A pair) = Some a"
    and b: "geometry_id_to_body_index plant (id_B pair) = Some b"
    and rows: "CalcNormalSeparationVelocitiesJacobian plant ext context pairs = Inr rows"
    and Jn: "Jn =
       transpose_times (nhat_BA_W pair)
         (jacobian_sub (CalcPointsGeometricJacobianExpressedInWorld ext context a (p_WCa pair))
            (CalcPointsGeometricJacobianExpressedInWorld ext context b (p_WCb pair))) # rows"
    by (auto simp: Let_def split: option.splits if_splits sum.splits)
  note IH = Cons.IH [OF rows]
  show ?case
  proof (intro conjI allI impI)
    show "length Jn = length (pair # pairs)" using IH Jn by simp
  next
    fix i assume i: "i < length (pair # pairs)"
    show "\<exists>a b. geometry_id_to_body_index plant (id_A ((pair # pairs) ! i)) = Some a \<and>
                  geometry_id_to_body_index plant (id_B ((pair # pairs) ! i)) = Some b \<and>
                  Jn ! i =
                    transpose_times (nhat_BA_W ((pair # pairs) ! i))
                      (jacobian_sub
                         (CalcPointsGeometricJacobianExpressedInWorld ext context a
                            (p_WCa ((pair # pairs) ! i)))
                         (CalcPointsGeometricJacobianExpressedInWorld ext context b
                            (p_WCb ((pair # pairs) ! i))))"
    proof (cases i)
      case 0
      then show ?thesis using a b Jn by simp
    next
      case (Suc j)
      then have "j < length pairs" using i by simp
      then show ?thesis using IH Suc Jn by simp
    qed
  qed
qed

lemma CalcTangentVelocitiesJacobian_rows:
  assumes "CalcTangentVelocitiesJacobian plant ext context pairs = Inr (Jt, R_WC_set)"
  shows "length Jt = 2 * length pairs \<and> length R_WC_set = length pairs \<and>
         (\<forall>i < length pairs.
            \<exists>a b. geometry_id_to_body_index plant (id_A (pairs ! i)) = Some a \<and>
                  geometry_id_to_body_index plant (id_B (pairs ! i)) = Some b \<and>
                  R_WC_set ! i = ComputeBasisFromAxis ext 2 (nhat_BA_W (pairs ! i)) \<and>
                  Jt ! (2 * i) =
                    transpose_times (fst (R_WC_set ! i))
                      (jacobian_sub
                         (CalcPointsGeometricJacobianExpressedInWorld ext context b
                            (p_WCb (pairs ! i)))
                         (CalcPointsGeometricJacobianExpressedInWorld ext context a
                            (p_WCa (pairs ! i)))) \<and>
                  Jt ! (2 * i + 1) =
                    transpose_times (fst (snd (R_WC_set ! i)))
                      (jacobian_sub
                         (CalcPointsGeometricJacobianExpressedInWorld ext context b
                            (p_WCb (pairs ! i)))
                         (CalcPointsGeometricJacobianExpressedInWorld ext context a
                            (p_WCa (pairs ! i)))))"
  using assms
proof (induction pairs arbitrary: Jt R_WC_set)
  case Nil
  then show ?case by simp
next
  case (Cons pair pairs)
  let ?JA = "\<lambda>a. CalcPointsGeometricJacobianExpressedInWorld ext context a (p_WCa pair)"
  let ?JB = "\<lambda>b. CalcPointsGeometricJacobianExpressedInWorld ext context b (p_WCb pair)"
  let ?R = "ComputeBasisFromAxis ext 2 (nhat_BA_W pair)"
  from Cons.prems obtain a b rows Rs where
    a: "geometry_id_to_body_index plant (id_A pair) = Some a"
    and b: "geometry_id_to_body_index plant (id_B pair) = Some b"
    and rows: "CalcTangentVelocitiesJacobian plant ext context pairs = Inr (rows, Rs)"
    and Jt: "Jt = transpose_times (fst ?R) (jacobian_sub (?JB b) (?JA a))
                # transpose_times (fst (snd ?R)) (jacobian_sub (?JB b) (?JA a)) # rows"
    and R: "R_WC_set = ?R # Rs"
    by (auto simp: Let_def split: option.splits if_splits sum.splits prod.splits)
  note IH = Cons.IH [OF rows]
  show ?case
  proof (intro conjI allI impI)
    show "length Jt = 2 * length (pair # pairs)" using IH Jt by simp
    show "length R_WC_set = length (pair # pairs)" using IH R by simp
  next
    fix i assume i: "i < length (pair # pairs)"
    show "\<exists>a b. geometry_id_to_body_index plant (id_A ((pair # pairs) ! i)) = Some a \<and>
                  geometry_id_to_body_index plant (id_B ((pair # pairs) ! i)) = Some b \<and>
                  R_WC_set ! i = ComputeBasisFromAxis ext 2 (nhat_BA_W ((pair # pairs) ! i)) \<and>
                  Jt ! (2 * i) =
                    transpose_times (fst (R_WC_set ! i))
                      (jacobian_sub
                         (CalcPointsGeometricJacobianExpressedInWorld ext context b
                            (p_WCb ((pair # pairs) ! i)))
                         (CalcPointsGeometricJacobianExpressedInWorld ext context a
                            (p_WCa ((pair # pairs) ! i)))) \<and>
                  Jt ! (2 * i + 1) =
                    transpose_times (fst (snd (R_WC_set ! i)))
                      (jacobian_sub
                         (CalcPointsGeometricJacobianExpressedInWorld ext context b
                            (p_WCb ((pair # pairs) ! i)))
                         (CalcPointsGeometricJacobianExpressedInWorld ext context a
                            (p_WCa ((pair # pairs) ! i))))"
    proof (cases i)
      case 0
      then show ?thesis using a b Jt R by simp
    next
      case (Suc j)
      then have "j < length pairs" using i by simp
      then show ?thesis using IH Suc Jt R by simp
    qed
  qed
qed

lemma dot_vadd_right: "dot n (vadd a b) = dot n a + dot n b"
  by (cases n rule: prod_cases3, cases a rule: prod_cases3, cases b rule: prod_cases3)
     (simp add: algebra_simps)

lemma dot_vsub_right: "dot n (vsub a b) = dot n a - dot n b"
  by (cases n rule: prod_cases3, cases a rule: prod_cases3, cases b rule: prod_cases3)
     (simp add: algebra_simps)

lemma dot_smul_right: "dot n (smul x a) = x * dot n a"
  by (cases n rule: prod_cases3, cases a rule: prod_cases3) (simp add: algebra_simps)

lemma dot_commute: "dot a b = dot b a"
  by (cases a rule: prod_cases3, cases b rule: prod_cases3) (simp add: algebra_simps)

lemma dot_Zero3: "dot n Zero3 = 0"
  by (cases n rule: prod_cases3) (simp add: Zero3_def)

lemma list_dot_transpose_times:
  "length J1 = length J2 \<Longrightarrow>
     list_dot (transpose_times n (jacobian_sub J1 J2)) v =
       dot n (vsub (jacobian_times J1 v) (jacobian_times J2 v))"
proof (induction J1 J2 arbitrary: v rule: list_induct2)
  case Nil
  then show ?case
    by (simp add: list_dot_def transpose_times_def jacobian_sub_def dot_vsub_right dot_Zero3)
next
  case (Cons c1 J1 c2 J2)
  show ?case
  proof (cases v)
    case Nil
    then show ?thesis
      by (simp add: list_dot_def transpose_times_def jacobian_sub_def dot_vsub_right dot_Zero3)
  next
    case (Cons x w)
    have "list_dot (transpose_times n (jacobian_sub (c1 # J1) (c2 # J2))) (x # w) =
            dot n (vsub c1 c2) * x + list_dot (transpose_times n (jacobian_sub J1 J2)) w"
      by (simp add: list_dot_def transpose_times_def jacobian_sub_def)
    also have "\<dots> = dot n (vsub c1 c2) * x
                     + dot n (vsub (jacobian_times J1 w) (jacobian_times J2 w))"
      by (simp add: Cons.IH)
    also have "\<dots> = dot n (vsub (jacobian_times (c1 # J1) (x # w))
                                (jacobian_times (c2 # J2) (x # w)))"
      by (simp add: dot_vsub_right dot_vadd_right dot_smul_right algebra_simps)
    finally show ?thesis using Cons by simp
  qed
qed

lemma normal_row_is_separation_speed:
  assumes "length J1 = length J2"
  shows "list_dot (transpose_times n (jacobian_sub J1 J2)) v =
           - approach_speed (jacobian_times J1 v) (jacobian_times J2 v) n"
  using list_dot_transpose_times [OF assms, of n v]
  by (simp add: approach_speed_def dot_vsub_right dot_commute)

text \<open>
  Claim C4 says that the normal row is \<open>n\<^sup>T (J_WAc - J_WBc)\<close>, the tangent rows are
  \<open>t\<^sub>1\<^sup>T (J_WBc - J_WAc)\<close> and \<open>t\<^sub>2\<^sup>T (J_WBc - J_WAc)\<close>, and that therefore \<open>Jn v > 0\<close>
  exactly when the bodies at the contact approach. The rows are as claimed; the sign
  is not. The source calls \<open>Jn v\<close> the separation velocity,
  \<^verbatim>\<open>vn = -v_AcBc_W.dot(nhat_BA_W)\<close>, the negative of the speed the penalty method reads
  as \<^verbatim>\<open>if xdot = vn > 0 ==> they are getting closer\<close>. On the ball that falls on the
  ground with generalized velocity \<open>(-1, 0)\<close> the bodies approach and \<open>Jn v = -1\<close>.
\<close>

theorem normal_jacobian_sign_counterexample:
  "CalcNormalSeparationVelocitiesJacobian (example_contact_plant (1 / 2)) example_ext
     example_context [example_pair 1 0] = Inr [[1, 0]] \<and>
   0 < approach_speed
         (jacobian_times (CalcPointsGeometricJacobianExpressedInWorld example_ext example_context 1
                            (p_WCa (example_pair 1 0))) [- 1, 0])
         (jacobian_times (CalcPointsGeometricJacobianExpressedInWorld example_ext example_context 0
                            (p_WCb (example_pair 1 0))) [- 1, 0])
         (nhat_BA_W (example_pair 1 0)) \<and>
   \<not> 0 < list_dot ([[1, 0]] ! 0) [- 1, 0]"
proof -
  have approaching: "0 < approach_speed
         (jacobian_times (CalcPointsGeometricJacobianExpressedInWorld example_ext example_context 1
                            (p_WCa (example_pair 1 0))) [- 1, 0])
         (jacobian_times (CalcPointsGeometricJacobianExpressedInWorld example_ext example_context 0
                            (p_WCb (example_pair 1 0))) [- 1, 0])
         (nhat_BA_W (example_pair 1 0))"
    by (simp add: example_ext_def example_pair_def approach_speed_def Zero3_def)
  have row: "\<not> 0 < list_dot ([[1, 0]] ! 0) [- 1, 0]"
    by (simp add: list_dot_def)
  show ?thesis
    using example_Jn [of "1 / 2" example_context] approaching row by blast
qed

text \<open>
  Claim C4, amended. For every list of point pairs and every contact \<open>i\<close>, the normal
  row is \<open>Jn[i] = n\<^sup>T (J_WAc - J_WBc)\<close> and the tangent rows are
  \<open>Jt[2i] = t\<^sub>1\<^sup>T (J_WBc - J_WAc)\<close> and \<open>Jt[2i + 1] = t\<^sub>2\<^sup>T (J_WBc - J_WAc)\<close>, with \<open>t\<^sub>1\<close>,
  \<open>t\<^sub>2\<close> the first two columns of the contact frame: the normal row uses the \<open>A - B\<close>
  difference and the tangent rows the opposite one. So \<open>Jn v\<close> is the separation
  velocity, the negative of the approach speed \<open>n \<cdot> (v_WBc - v_WAc)\<close>: \<open>Jn v > 0\<close>
  exactly when the bodies at contact \<open>i\<close> separate, and \<open>Jn v < 0\<close> exactly when they
  approach.
\<close>

theorem contact_jacobian_rows:
  assumes Jn: "CalcNormalSeparationVelocitiesJacobian plant ext context pairs = Inr Jn"
    and Jt: "CalcTangentVelocitiesJacobian plant ext context pairs = Inr (Jt, R_WC_set)"
    and i: "i < length pairs"
    and sizes: "\<forall>body p. length (CalcPointsGeometricJacobianExpressedInWorld ext context body p)
                  = num_velocities plant"
  shows
    "\<exists>a b. geometry_id_to_body_index plant (id_A (pairs ! i)) = Some a \<and>
           geometry_id_to_body_index plant (id_B (pairs ! i)) = Some b \<and>
           (let pair = pairs ! i;
                Jv_WAc = CalcPointsGeometricJacobianExpressedInWorld ext context a (p_WCa pair);
                Jv_WBc = CalcPointsGeometricJacobianExpressedInWorld ext context b (p_WCb pair);
                R_WC = ComputeBasisFromAxis ext 2 (nhat_BA_W pair);
                that1_W = fst R_WC;
                that2_W = fst (snd R_WC);
                v_WAc = jacobian_times Jv_WAc v;
                v_WBc = jacobian_times Jv_WBc v
            in Jn ! i = transpose_times (nhat_BA_W pair) (jacobian_sub Jv_WAc Jv_WBc) \<and>
               Jt ! (2 * i) = transpose_times that1_W (jacobian_sub Jv_WBc Jv_WAc) \<and>
               Jt ! (2 * i + 1) = transpose_times that2_W (jacobian_sub Jv_WBc Jv_WAc) \<and>
               R_WC_set ! i = R_WC \<and>
               list_dot (Jn ! i) v = - approach_speed v_WAc v_WBc (nhat_BA_W pair) \<and>
               (0 < list_dot (Jn ! i) v \<longleftrightarrow> approach_speed v_WAc v_WBc (nhat_BA_W pair) < 0) \<and>
               (list_dot (Jn ! i) v < 0 \<longleftrightarrow> 0 < approach_speed v_WAc v_WBc (nhat_BA_W pair)))"
proof -
  from CalcNormalSeparationVelocitiesJacobian_rows [OF Jn] i obtain a b where
    a: "geometry_id_to_body_index plant (id_A (pairs ! i)) = Some a"
    and b: "geometry_id_to_body_index plant (id_B (pairs ! i)) = Some b"
    and n: "Jn ! i =
              transpose_times (nhat_BA_W (pairs ! i))
                (jacobian_sub
                   (CalcPointsGeometricJacobianExpressedInWorld ext context a (p_WCa (pairs ! i)))
                   (CalcPointsGeometricJacobianExpressedInWorld ext context b (p_WCb (pairs ! i))))"
    by blast
  from CalcTangentVelocitiesJacobian_rows [OF Jt] i a b have
    t: "R_WC_set ! i = ComputeBasisFromAxis ext 2 (nhat_BA_W (pairs ! i))"
      "Jt ! (2 * i) =
         transpose_times (fst (R_WC_set ! i))
           (jacobian_sub
              (CalcPointsGeometricJacobianExpressedInWorld ext context b (p_WCb (pairs ! i)))
              (CalcPointsGeometricJacobianExpressedInWorld ext context a (p_WCa (pairs ! i))))"
      "Jt ! (2 * i + 1) =
         transpose_times (fst (snd (R_WC_set ! i)))
           (jacobian_sub
              (CalcPointsGeometricJacobianExpressedInWorld ext context b (p_WCb (pairs ! i)))
              (CalcPointsGeometricJacobianExpressedInWorld ext context a (p_WCa (pairs ! i))))"
    by fastforce+
  have len: "length (CalcPointsGeometricJacobianExpressedInWorld ext context a (p_WCa (pairs ! i)))
           = length (CalcPointsGeometricJacobianExpressedInWorld ext context b (p_WCb (pairs ! i)))"
    by (simp add: sizes [rule_format])
  have s: "list_dot (Jn ! i) v =
      - approach_speed
          (jacobian_times
             (CalcPointsGeometricJacobianExpressedInWorld ext context a (p_WCa (pairs ! i))) v)
          (jacobian_times
             (CalcPointsGeometricJacobianExpressedInWorld ext context b (p_WCb (pairs ! i))) v)
          (nhat_BA_W (pairs ! i))"
    unfolding n by (rule normal_row_is_separation_speed [OF len])
  show ?thesis
    apply (rule exI [of _ a], rule exI [of _ b])
    unfolding Let_def
    using a b n t s by simp
qed

lemma example_jacobian_sizes:
  "\<forall>body p. length (CalcPointsGeometricJacobianExpressedInWorld example_ext context body p)
     = num_velocities (example_contact_plant dt)"
  by (simp add: example_ext_def num_velocities_def example_contact_plant_def example_plant_def)

theorem contact_jacobian_rows_witness:
  "CalcNormalSeparationVelocitiesJacobian (example_contact_plant (1 / 2)) example_ext
     example_context [example_pair 1 0] = Inr [[1, 0]] \<and>
   CalcTangentVelocitiesJacobian (example_contact_plant (1 / 2)) example_ext
     example_context [example_pair 1 0] =
     Inr ([[0, 0], [0, 0]], [((1, 0, 0), (0, 1, 0), (0, 0, 1))]) \<and>
   (0::nat) < length [example_pair 1 0] \<and>
   (\<forall>body p. length (CalcPointsGeometricJacobianExpressedInWorld example_ext example_context
                        body p) = num_velocities (example_contact_plant (1 / 2))) \<and>
   list_dot ([[1, 0]] ! 0) [- 1, 0] = - 1 \<and>
   approach_speed
     (jacobian_times (CalcPointsGeometricJacobianExpressedInWorld example_ext example_context 1
                        (p_WCa (example_pair 1 0))) [- 1, 0])
     (jacobian_times (CalcPointsGeometricJacobianExpressedInWorld example_ext example_context 0
                        (p_WCb (example_pair 1 0))) [- 1, 0])
     (nhat_BA_W (example_pair 1 0)) = 1"
proof -
  have i: "(0::nat) < length [example_pair 1 0]" by simp
  have ids: "geometry_id_to_body_index (example_contact_plant (1 / 2)) (id_A (example_pair 1 0))
               = Some 1"
    "geometry_id_to_body_index (example_contact_plant (1 / 2)) (id_B (example_pair 1 0))
               = Some 0"
    by (simp_all add: example_contact_plant_def example_plant_def example_pair_def)
  have d: "list_dot ([[1, 0]] ! 0) [- 1, 0] = - 1" by (simp add: list_dot_def)
  from contact_jacobian_rows [OF example_Jn example_Jt i example_jacobian_sizes,
      of "1 / 2" example_context "[- 1, 0]"]
  have "list_dot ([[1, 0]] ! 0) [- 1, 0] =
     - approach_speed
     (jacobian_times (CalcPointsGeometricJacobianExpressedInWorld example_ext example_context 1
                        (p_WCa (example_pair 1 0))) [- 1, 0])
     (jacobian_times (CalcPointsGeometricJacobianExpressedInWorld example_ext example_context 0
                        (p_WCb (example_pair 1 0))) [- 1, 0])
     (nhat_BA_W (example_pair 1 0))"
    by (auto simp: Let_def ids simp del: One_nat_def)
  then show ?thesis
    using example_Jn [of "1 / 2" example_context] example_Jt [of "1 / 2" example_context]
      i example_jacobian_sizes [of example_context "1 / 2"] d
    by (simp del: CalcNormalSeparationVelocitiesJacobian.simps
        CalcTangentVelocitiesJacobian.simps One_nat_def)
qed

end
